theory Spec2Isabelle
  imports Main "HOL-Library.AList"
begin

section \<open>JavaScript values\<close>

text \<open>
  The client moves JSON-like values around: credentials, request parameters, response
  bodies.  An object is an association list in property order; its keys are distinct
  in every value the program builds.  Numbers are restricted to integers (status codes,
  timestamps, token lifetimes); the program does no arithmetic on response data.
\<close>

datatype jsval =
    JUndefined
  | JNull
  | JBool bool
  | JNum int
  | JStr string
  | JArr "jsval list"
  | JObj "(string \<times> jsval) list"

type_synonym obj = "(string \<times> jsval) list"

text \<open>The conversion to boolean used by \<^verbatim>\<open>if (x)\<close> and \<^verbatim>\<open>x ? a : b\<close>.\<close>

fun truthy :: "jsval \<Rightarrow> bool" where
  "truthy JUndefined = False"
| "truthy JNull = False"
| "truthy (JBool b) = b"
| "truthy (JNum n) = (n \<noteq> 0)"
| "truthy (JStr s) = (s \<noteq> [])"
| "truthy (JArr xs) = True"
| "truthy (JObj kvs) = True"

text \<open>\<^verbatim>\<open>x != null\<close> is false exactly for \<^verbatim>\<open>null\<close> and \<^verbatim>\<open>undefined\<close>.\<close>

fun nullish :: "jsval \<Rightarrow> bool" where
  "nullish JUndefined = True"
| "nullish JNull = True"
| "nullish v = False"

text \<open>
  Reading a property \<^verbatim>\<open>v.key\<close> of a value that is neither \<^verbatim>\<open>null\<close> nor
  \<^verbatim>\<open>undefined\<close> (on those the read throws a TypeError, which the callers below check
  first).  The keys read by the program (\<^verbatim>\<open>data\<close>, \<^verbatim>\<open>access_token\<close>,
  \<^verbatim>\<open>refresh_token\<close>) are defined by no prototype, so a primitive or an array has none
  of them.
\<close>

fun js_prop :: "jsval \<Rightarrow> string \<Rightarrow> jsval" where
  "js_prop (JObj kvs) key = (case map_of kvs key of None \<Rightarrow> JUndefined | Some v \<Rightarrow> v)"
| "js_prop v key = JUndefined"

text \<open>\<^verbatim>\<open>Object.entries(v).length\<close> for a value that is not null or undefined.\<close>

fun entries_length :: "jsval \<Rightarrow> nat" where
  "entries_length (JObj kvs) = length kvs"
| "entries_length (JArr xs) = length xs"
| "entries_length (JStr s) = length s"
| "entries_length v = 0"

text \<open>Decimal rendering of a non-negative integer, as string concatenation does it.\<close>

function show_nat :: "nat \<Rightarrow> string" where
  "show_nat n =
     (if n < 10 then [''0123456789'' ! n]
      else show_nat (n div 10) @ [''0123456789'' ! (n mod 10)])"
  by pat_completeness auto
termination
  by (relation "measure id") auto

declare show_nat.simps [simp del]

text \<open>
  A string concatenated with the result of \<^verbatim>\<open>JSON.stringify\<close>, which is a string or
  \<^verbatim>\<open>undefined\<close>.
\<close>

fun concat_text :: "string option \<Rightarrow> string" where
  "concat_text None = ''undefined''"
| "concat_text (Some s) = s"

section \<open>Deep assignment\<close>

text \<open>
  Modelled from the spec: \<^verbatim>\<open>assign\<close> is the package \<^verbatim>\<open>assign-deep\<close> required at the top
  of the file; its code is not among the sources.  The spec calls it a generic recursive
  deep merge of request parameter objects.  Like \<^verbatim>\<open>Object.assign\<close> it writes the
  properties of the source into the target, which it returns: a property whose value is a
  plain object in both is merged recursively, any other property of the source replaces
  the target's.  An existing key keeps its position, a new key goes to the end.
\<close>

fun assign_deep :: "obj \<Rightarrow> obj \<Rightarrow> obj" where
  "assign_deep target [] = target"
| "assign_deep target ((key, JObj s) # rest) =
     assign_deep
       (AList.update key
          (case map_of target key of
             Some (JObj t) \<Rightarrow> JObj (assign_deep t s)
           | _ \<Rightarrow> JObj s)
          target)
       rest"
| "assign_deep target ((key, v) # rest) = assign_deep (AList.update key v target) rest"

text \<open>\<^verbatim>\<open>assign(target, a, b, ...)\<close> merges the sources from left to right.\<close>

definition assign :: "obj \<Rightarrow> obj list \<Rightarrow> obj" where
  "assign target sources = foldl assign_deep target sources"

section \<open>The client and its environment\<close>

text \<open>
  The options object given to the constructor.  A missing option reads as
  \<^verbatim>\<open>undefined\<close>.
\<close>

record options =
  opt_apiKey :: jsval
  opt_apiSecret :: jsval
  opt_accessToken :: jsval
  opt_refreshToken :: jsval
  opt_clientId :: jsval
  opt_clientSecret :: jsval

text \<open>
  What a registered event function does with its argument: the promise it returns is
  fulfilled, or it throws (or rejects with) a value, or it never settles.  The function is
  an external collaborator; it is assumed not to touch the client.
\<close>

datatype settled = Fulfilled | Threw jsval | NeverSettles

type_synonym handler = "jsval \<Rightarrow> settled"

text \<open>\<^verbatim>\<open>request.get\<close>, \<^verbatim>\<open>request.post\<close>, \<^verbatim>\<open>request.put\<close>, \<^verbatim>\<open>request.delete\<close>.\<close>

datatype verb = GET | POST | PUT | DELETE

text \<open>
  The fields of a \<^verbatim>\<open>CoinbaseBaseClient\<close> (the source's \<^verbatim>\<open>_accessToken\<close> is
  \<open>priv_accessToken\<close>, and so on), together with two logs of what the instance has
  done to the outside: the requests handed to the transport and the arguments the
  \<^verbatim>\<open>didRefreshToken\<close> function was called with, oldest first.
\<close>

record client =
  priv_apiKey :: jsval
  priv_apiSecret :: jsval
  priv_accessToken :: jsval
  priv_refreshToken :: jsval
  priv_clientId :: jsval
  priv_clientSecret :: jsval
  priv_events :: "string \<rightharpoonup> handler"
  sent :: "(verb \<times> obj) list"
  notified :: "jsval list"

text \<open>
  What the transport passes to the callback: a truthy \<^verbatim>\<open>err\<close>, or a response with
  its status code and decoded body.
\<close>

datatype reply = Failure jsval | Response nat jsval

text \<open>
  The platform around the client.  The transport answers a request knowing the requests
  sent before it; \<^verbatim>\<open>JSON.stringify\<close> returns a string or \<^verbatim>\<open>undefined\<close>;
  \<^verbatim>\<open>crypto.createHmac('sha256', key).update(message).digest('hex')\<close> returns the
  signature or throws on a key it does not accept; \<^verbatim>\<open>Date.now()\<close> is read at most
  once by each operation below (when an API-key request is signed), so one reading is
  enough.
\<close>

record env =
  transport :: "(verb \<times> obj) list \<Rightarrow> verb \<Rightarrow> obj \<Rightarrow> reply"
  json_stringify :: "jsval \<Rightarrow> string option"
  hmac_sha256_hex :: "jsval \<Rightarrow> string \<Rightarrow> string option"
  date_now :: nat

text \<open>
  The values the client throws or rejects with.  \<open>ExpiredTokenError\<close> and \<open>Error\<close>
  carry their message.  \<open>TransportError\<close> is the \<^verbatim>\<open>err\<close> of the transport,
  \<open>HandlerError\<close> what the event function threw; neither can be an instance of
  \<open>ExpiredTokenError\<close>, a class the module does not export.
\<close>

datatype error =
    ExpiredTokenError string
  | Error string
  | TypeError
  | TransportError jsval
  | HandlerError jsval

text \<open>
  How a call ends: its promise resolves, rejects, or never settles; a function that is not
  \<^verbatim>\<open>async\<close> can also throw before it returns a promise.
\<close>

datatype outcome = Resolved jsval | Rejected error | Pending | Thrown error

definition COINBASE_API :: string where
  "COINBASE_API = ''https://api.coinbase.com''"

definition constructor :: "options \<Rightarrow> client" where
  "constructor opts =
     \<lparr> priv_apiKey = opt_apiKey opts,
       priv_apiSecret = opt_apiSecret opts,
       priv_accessToken = opt_accessToken opts,
       priv_refreshToken = opt_refreshToken opts,
       priv_clientId = opt_clientId opts,
       priv_clientSecret = opt_clientSecret opts,
       priv_events = Map.empty,
       sent = [],
       notified = [] \<rparr>"

definition on :: "client \<Rightarrow> string \<Rightarrow> handler \<Rightarrow> client" where
  "on c eventName eventFn = c\<lparr>priv_events := (priv_events c)(eventName \<mapsto> eventFn)\<rparr>"

definition isOAuth :: "client \<Rightarrow> bool" where
  "isOAuth c = (\<not> nullish (priv_accessToken c))"

definition getDefaultHeaders :: obj where
  "getDefaultHeaders =
     [(''json'', JBool True),
      (''headers'', JObj
         [(''CB-VERSION'', JStr ''2016-08-09''),
          (''Content-Type'', JStr ''application/json''),
          (''Accept'', JStr ''application/json''),
          (''Accept-Language'', JStr ''en'')])]"

definition getOAuthHeaders :: "client \<Rightarrow> obj" where
  "getOAuthHeaders c = [(''auth'', JObj [(''bearer'', priv_accessToken c)])]"

definition getAPIAuthHeaders :: "env \<Rightarrow> client \<Rightarrow> string \<Rightarrow> string \<Rightarrow> jsval \<Rightarrow> error + obj" where
  "getAPIAuthHeaders e c path method body =
     (let timestamp = date_now e div 1000;
          message = show_nat timestamp @ method @ path
                    @ (if truthy body then concat_text (json_stringify e body) else [])
      in case hmac_sha256_hex e (priv_apiSecret c) message of
           None \<Rightarrow> Inl TypeError
         | Some signature \<Rightarrow>
             Inr [(''headers'', JObj
                    [(''CB-ACCESS-KEY'', priv_apiKey c),
                     (''CB-ACCESS-SIGN'', JStr signature),
                     (''CB-ACCESS-TIMESTAMP'', JNum (int timestamp))])])"

definition getAuthHeaders :: "env \<Rightarrow> client \<Rightarrow> string \<Rightarrow> string \<Rightarrow> jsval \<Rightarrow> error + obj" where
  "getAuthHeaders e c path method body =
     (if isOAuth c then Inr (getOAuthHeaders c)
      else getAPIAuthHeaders e c path method body)"

definition getRequestParams :: "env \<Rightarrow> client \<Rightarrow> string \<Rightarrow> string \<Rightarrow> jsval \<Rightarrow> error + obj" where
  "getRequestParams e c method path body =
     (let url = COINBASE_API @ path
      in case getAuthHeaders e c path method body of
           Inl err \<Rightarrow> Inl err
         | Inr authHeaders \<Rightarrow>
             Inr (assign [(''url'', JStr url)]
                    [getDefaultHeaders,
                     authHeaders,
                     if \<not> nullish body \<and> entries_length body > 0
                     then [(''body'', body)] else []]))"

section \<open>The request pipeline\<close>

text \<open>The message of an error made from \<^verbatim>\<open>JSON.stringify(res.body)\<close>.\<close>

fun error_message :: "string option \<Rightarrow> string" where
  "error_message None = []"
| "error_message (Some s) = s"

text \<open>
  The inner function \<^verbatim>\<open>send\<close> of \<^verbatim>\<open>httpRequest\<close>: one call of the transport and
  the callback's reading of the reply.  On a success status with a \<^verbatim>\<open>null\<close> or
  \<^verbatim>\<open>undefined\<close> body, reading \<^verbatim>\<open>res.body.data\<close> throws inside the callback and the
  promise is never settled.
\<close>

definition send :: "env \<Rightarrow> client \<Rightarrow> verb \<Rightarrow> obj \<Rightarrow> outcome \<times> client" where
  "send e c fn params =
     (let c' = c\<lparr>sent := sent c @ [(fn, params)]\<rparr>
      in case transport e (sent c) fn params of
           Failure err \<Rightarrow> (Rejected (TransportError err), c')
         | Response statusCode body \<Rightarrow>
             if isOAuth c \<and> statusCode = 401
             then (Rejected (ExpiredTokenError (error_message (json_stringify e body))), c')
             else if statusCode \<ge> 300
             then (Rejected (Error (''HTTP error '' @ show_nat statusCode @ '' ''
                                     @ concat_text (json_stringify e body))), c')
             else if nullish body then (Pending, c')
             else (Resolved (if truthy (js_prop body ''data'')
                             then js_prop body ''data'' else body), c'))"

fun is_ExpiredTokenError :: "error \<Rightarrow> bool" where
  "is_ExpiredTokenError (ExpiredTokenError m) = True"
| "is_ExpiredTokenError err = False"

text \<open>The body literal that \<^verbatim>\<open>refreshToken\<close> posts.\<close>

definition refresh_grant :: "client \<Rightarrow> jsval" where
  "refresh_grant c =
     JObj [(''grant_type'', JStr ''refresh_token''),
           (''client_id'', priv_clientId c),
           (''client_secret'', priv_clientSecret c),
           (''refresh_token'', priv_refreshToken c)]"

text \<open>
  \<^verbatim>\<open>httpRequest\<close>, \<^verbatim>\<open>httpPost\<close> and \<^verbatim>\<open>refreshToken\<close> call each other; the cycle
  ends because \<^verbatim>\<open>refreshToken\<close> passes \<^verbatim>\<open>refresh = false\<close>.  When
  \<^verbatim>\<open>refreshToken\<close> resolves with a falsy result, \<^verbatim>\<open>httpRequest\<close> runs off the end of
  its \<^verbatim>\<open>catch\<close> block and resolves with \<^verbatim>\<open>undefined\<close>.  \<^verbatim>\<open>httpPost\<close> is not
  \<^verbatim>\<open>async\<close>: when signing throws, it throws; inside the \<^verbatim>\<open>async\<close>
  \<^verbatim>\<open>refreshToken\<close> that becomes a rejection.
\<close>

function httpRequest :: "env \<Rightarrow> client \<Rightarrow> verb \<Rightarrow> obj \<Rightarrow> bool \<Rightarrow> outcome \<times> client"
  and httpPost :: "env \<Rightarrow> client \<Rightarrow> string \<Rightarrow> jsval \<Rightarrow> bool \<Rightarrow> outcome \<times> client"
  and refreshToken :: "env \<Rightarrow> client \<Rightarrow> outcome \<times> client"
where
  "httpRequest e c fn params refresh =
     (case send e c fn params of
        (Rejected err, c1) \<Rightarrow>
          if is_ExpiredTokenError err \<and> refresh
          then (case refreshToken e c1 of
                  (Resolved res, c2) \<Rightarrow>
                    if truthy res
                    then send e c2 fn (assign params [getOAuthHeaders c2])
                    else (Resolved JUndefined, c2)
                | (other, c2) \<Rightarrow> (other, c2))
          else (Rejected err, c1)
      | (other, c1) \<Rightarrow> (other, c1))"
| "httpPost e c path body refresh =
     (case getRequestParams e c ''POST'' path body of
        Inl err \<Rightarrow> (Thrown err, c)
      | Inr params \<Rightarrow> httpRequest e c POST params refresh)"
| "refreshToken e c =
     (case httpPost e c ''/oauth/token'' (refresh_grant c) False of
        (Resolved res, c1) \<Rightarrow>
          if truthy res
          then (let c2 = c1\<lparr>priv_accessToken := js_prop res ''access_token'',
                             priv_refreshToken := js_prop res ''refresh_token''\<rparr>
                in case priv_events c2 ''didRefreshToken'' of
                     None \<Rightarrow> (Resolved res, c2)
                   | Some eventFn \<Rightarrow>
                       (let c3 = c2\<lparr>notified := notified c2 @ [res]\<rparr>
                        in case eventFn res of
                             Fulfilled \<Rightarrow> (Resolved res, c3)
                           | Threw x \<Rightarrow> (Rejected (HandlerError x), c3)
                           | NeverSettles \<Rightarrow> (Pending, c3)))
          else (Resolved res, c1)
      | (Thrown err, c1) \<Rightarrow> (Rejected err, c1)
      | (other, c1) \<Rightarrow> (other, c1))"
  by pat_completeness auto

termination
  by (relation "measure (\<lambda>x. case x of
        Inl (e, c, fn, params, refresh) \<Rightarrow> if refresh then 3 else 0
      | Inr (Inl (e, c, path, body, refresh)) \<Rightarrow> if refresh then 4 else 1
      | Inr (Inr (e, c)) \<Rightarrow> 2)")
    auto

declare httpRequest.simps [simp del] httpPost.simps [simp del] refreshToken.simps [simp del]

definition httpGet :: "env \<Rightarrow> client \<Rightarrow> string \<Rightarrow> bool \<Rightarrow> outcome \<times> client" where
  "httpGet e c path refresh =
     (case getRequestParams e c ''GET'' path JUndefined of
        Inl err \<Rightarrow> (Thrown err, c)
      | Inr params \<Rightarrow> httpRequest e c GET params refresh)"

definition httpPut :: "env \<Rightarrow> client \<Rightarrow> string \<Rightarrow> jsval \<Rightarrow> bool \<Rightarrow> outcome \<times> client" where
  "httpPut e c path body refresh =
     (case getRequestParams e c ''PUT'' path body of
        Inl err \<Rightarrow> (Thrown err, c)
      | Inr params \<Rightarrow> httpRequest e c PUT params refresh)"

definition httpDelete :: "env \<Rightarrow> client \<Rightarrow> string \<Rightarrow> bool \<Rightarrow> outcome \<times> client" where
  "httpDelete e c path refresh =
     (case getRequestParams e c ''DELETE'' path JUndefined of
        Inl err \<Rightarrow> (Thrown err, c)
      | Inr params \<Rightarrow> httpRequest e c DELETE params refresh)"

text \<open>
  \<^verbatim>\<open>revokeToken\<close> reads \<^verbatim>\<open>this.accessToken\<close>.  Neither the constructor nor the class
  defines a property of that name (the token is kept in \<^verbatim>\<open>_accessToken\<close>), so the read
  gives \<^verbatim>\<open>undefined\<close>.  No third argument is passed: \<^verbatim>\<open>refresh\<close> takes its default.
\<close>

definition revokeToken :: "env \<Rightarrow> client \<Rightarrow> outcome \<times> client" where
  "revokeToken e c = httpPost e c ''/oauth/revoke'' (JObj [(''token'', JUndefined)]) True"

section \<open>Money transfers and the caller's object\<close>

text \<open>
  The caller of \<^verbatim>\<open>sendMoney\<close>, \<^verbatim>\<open>transferMoney\<close> and \<^verbatim>\<open>requestMoney\<close> passes an
  object it keeps a reference to.  The heap holds the caller's objects by address.  The
  request pipeline only reads the body it is handed, so the heap is not threaded through
  it.
\<close>

type_synonym heap = "nat \<Rightarrow> obj"

text \<open>
  Modelled from the spec: the call \<^verbatim>\<open>assign(params, {type: ...})\<close> of the absent package
  \<^verbatim>\<open>assign-deep\<close> on an object of the caller.  The spec has the type merged into the body
  with the caller's fields preserved; the package does the merge in its first argument, as
  \<^verbatim>\<open>Object.assign\<close> does, and returns that same object.
\<close>

definition assign_in_place :: "heap \<Rightarrow> nat \<Rightarrow> obj list \<Rightarrow> obj \<times> heap" where
  "assign_in_place h target sources =
     (let merged = assign (h target) sources in (merged, h(target := merged)))"

definition sendMoney ::
  "env \<Rightarrow> client \<Rightarrow> heap \<Rightarrow> string \<Rightarrow> nat \<Rightarrow> (outcome \<times> client) \<times> heap" where
  "sendMoney e c h accountId params =
     (let (body, h') = assign_in_place h params [[(''type'', JStr ''send'')]]
      in (httpPost e c (''/v2/accounts/'' @ accountId @ ''/transactions'') (JObj body) True, h'))"

definition transferMoney ::
  "env \<Rightarrow> client \<Rightarrow> heap \<Rightarrow> string \<Rightarrow> nat \<Rightarrow> (outcome \<times> client) \<times> heap" where
  "transferMoney e c h accountId params =
     (let (body, h') = assign_in_place h params [[(''type'', JStr ''transfer'')]]
      in (httpPost e c (''/v2/accounts/'' @ accountId @ ''/transactions'') (JObj body) True, h'))"

definition requestMoney ::
  "env \<Rightarrow> client \<Rightarrow> heap \<Rightarrow> string \<Rightarrow> nat \<Rightarrow> (outcome \<times> client) \<times> heap" where
  "requestMoney e c h accountId params =
     (let (body, h') = assign_in_place h params [[(''type'', JStr ''request'')]]
      in (httpPost e c (''/v2/accounts/'' @ accountId @ ''/transactions'') (JObj body) True, h'))"

section \<open>Well-behaved token endpoints\<close>

text \<open>
  A transport whose successful answers to the refresh call (a POST to
  \<^verbatim>\<open>/oauth/token\<close> answered with a status below 300 and a truthy result) always carry
  an access token that is not \<^verbatim>\<open>null\<close> or \<^verbatim>\<open>undefined\<close>.
\<close>

definition refresh_grants_token :: "env \<Rightarrow> bool" where
  "refresh_grants_token e =
     (\<forall>history params statusCode body.
        transport e history POST params = Response statusCode body
        \<and> map_of params ''url'' = Some (JStr (COINBASE_API @ ''/oauth/token''))
        \<and> statusCode < 300 \<and> \<not> nullish body
        \<and> truthy (if truthy (js_prop body ''data'') then js_prop body ''data'' else body)
        \<longrightarrow> \<not> nullish
               (js_prop (if truthy (js_prop body ''data'') then js_prop body ''data'' else body)
                  ''access_token''))"

section \<open>A test platform\<close>

text \<open>
  Concrete surroundings on which the theorems below are instantiated: a transport that
  answers the n-th request with the n-th reply of a script (and fails once the script is
  used up), stand-ins for \<^verbatim>\<open>JSON.stringify\<close> and the HMAC, a fixed clock, and the two
  clients of the README.
\<close>

definition scripted :: "reply list \<Rightarrow> (verb \<times> obj) list \<Rightarrow> verb \<Rightarrow> obj \<Rightarrow> reply" where
  "scripted replies history fn params =
     (if length history < length replies then replies ! length history
      else Failure (JStr ''ECONNRESET''))"

definition stub_stringify :: "jsval \<Rightarrow> string option" where
  "stub_stringify v = (case v of JUndefined \<Rightarrow> None | JStr s \<Rightarrow> Some s | _ \<Rightarrow> Some ''{}'')"

definition stub_hmac :: "jsval \<Rightarrow> string \<Rightarrow> string option" where
  "stub_hmac key message = (case key of JStr k \<Rightarrow> Some (k @ ''/'' @ message) | _ \<Rightarrow> None)"

definition platform :: "reply list \<Rightarrow> env" where
  "platform replies =
     \<lparr> transport = scripted replies,
       json_stringify = stub_stringify,
       hmac_sha256_hex = stub_hmac,
       date_now = 5999 \<rparr>"

definition oauth_client :: client where
  "oauth_client =
     constructor
       \<lparr> opt_apiKey = JUndefined,
         opt_apiSecret = JUndefined,
         opt_accessToken = JStr ''old'',
         opt_refreshToken = JStr ''r1'',
         opt_clientId = JStr ''app'',
         opt_clientSecret = JStr ''hush'' \<rparr>"

definition api_client :: client where
  "api_client =
     constructor
       \<lparr> opt_apiKey = JStr ''key'',
         opt_apiSecret = JStr ''secret'',
         opt_accessToken = JUndefined,
         opt_refreshToken = JUndefined,
         opt_clientId = JUndefined,
         opt_clientSecret = JUndefined \<rparr>"

text \<open>The request \<^verbatim>\<open>refreshToken\<close> builds for \<open>oauth_client\<close>.\<close>

definition oauth_refresh_request :: obj where
  "oauth_refresh_request =
     [(''url'', JStr ''https://api.coinbase.com/oauth/token''),
      (''json'', JBool True),
      (''headers'', JObj
         [(''CB-VERSION'', JStr ''2016-08-09''),
          (''Content-Type'', JStr ''application/json''),
          (''Accept'', JStr ''application/json''),
          (''Accept-Language'', JStr ''en'')]),
      (''auth'', JObj [(''bearer'', JStr ''old'')]),
      (''body'', JObj
         [(''grant_type'', JStr ''refresh_token''),
          (''client_id'', JStr ''app''),
          (''client_secret'', JStr ''hush''),
          (''refresh_token'', JStr ''r1'')])]"

text \<open>The request \<^verbatim>\<open>revokeToken\<close> builds for \<open>oauth_client\<close>.\<close>

definition oauth_revoke_request :: obj where
  "oauth_revoke_request =
     [(''url'', JStr ''https://api.coinbase.com/oauth/revoke''),
      (''json'', JBool True),
      (''headers'', JObj
         [(''CB-VERSION'', JStr ''2016-08-09''),
          (''Content-Type'', JStr ''application/json''),
          (''Accept'', JStr ''application/json''),
          (''Accept-Language'', JStr ''en'')]),
      (''auth'', JObj [(''bearer'', JStr ''old'')]),
      (''body'', JObj [(''token'', JUndefined)])]"

text \<open>A request for the current user, as \<^verbatim>\<open>httpGet('/v2/user')\<close> hands it on.\<close>

definition user_request :: obj where
  "user_request =
     [(''url'', JStr ''https://api.coinbase.com/v2/user''),
      (''auth'', JObj [(''bearer'', JStr ''old'')])]"

definition token_payload :: jsval where
  "token_payload =
     JObj [(''access_token'', JStr ''new''),
           (''refresh_token'', JStr ''r2''),
           (''expires_in'', JNum 3600)]"

text \<open>
  A platform that tells requests apart by their URL: the refresh call is granted
  \<open>token_payload\<close>; any other request is refused with a 401 when it is the first one and
  answered with a user afterwards.
\<close>

definition token_server :: env where
  "token_server =
     \<lparr> transport = (\<lambda>history fn params.
          if map_of params ''url'' = Some (JStr ''https://api.coinbase.com/oauth/token'')
          then Response 200 token_payload
          else if history = [] then Response 401 (JStr ''expired'')
          else Response 200 (JObj [(''data'', JObj [(''id'', JStr ''u1'')])])),
       json_stringify = stub_stringify,
       hmac_sha256_hex = stub_hmac,
       date_now = 5999 \<rparr>"

section \<open>Facts about the building blocks\<close>

lemmas fixture_defs = platform_def scripted_def stub_stringify_def stub_hmac_def oauth_client_def
  api_client_def constructor_def on_def oauth_refresh_request_def oauth_revoke_request_def
  user_request_def token_payload_def COINBASE_API_def refresh_grant_def
  isOAuth_def

lemma httpRequest_no_refresh: "httpRequest e c fn params False = send e c fn params"
  by (simp add: httpRequest.simps split: prod.splits outcome.splits)

lemma isOAuth_sent [simp]: "isOAuth (c\<lparr>sent := s\<rparr>) = isOAuth c"
  by (simp add: isOAuth_def)

lemma refresh_grant_sent [simp]: "refresh_grant (c\<lparr>sent := s\<rparr>) = refresh_grant c"
  by (simp add: refresh_grant_def)

lemma getAuthHeaders_sent [simp]:
  "getAuthHeaders e (c\<lparr>sent := s\<rparr>) path method body = getAuthHeaders e c path method body"
  by (simp add: getAuthHeaders_def getAPIAuthHeaders_def isOAuth_def getOAuthHeaders_def Let_def
      split: option.splits)

lemma getRequestParams_sent [simp]:
  "getRequestParams e (c\<lparr>sent := s\<rparr>) method path body = getRequestParams e c method path body"
  by (simp add: getRequestParams_def)

lemma assign_deep_fresh_key:
  "map_of target key = None \<Longrightarrow>
   assign_deep target ((key, v) # rest) = assign_deep (AList.update key v target) rest"
  by (cases v) simp_all

lemma getRequestParams_OAuth:
  "isOAuth c \<Longrightarrow> getRequestParams e c method path body =
     Inr ([(''url'', JStr (COINBASE_API @ path)),
           (''json'', JBool True),
           (''headers'', JObj
              [(''CB-VERSION'', JStr ''2016-08-09''),
               (''Content-Type'', JStr ''application/json''),
               (''Accept'', JStr ''application/json''),
               (''Accept-Language'', JStr ''en'')]),
           (''auth'', JObj [(''bearer'', priv_accessToken c)])]
          @ (if \<not> nullish body \<and> entries_length body > 0 then [(''body'', body)] else []))"
  by (simp add: getRequestParams_def getAuthHeaders_def getOAuthHeaders_def assign_def
      getDefaultHeaders_def assign_deep_fresh_key)

lemma send_expired:
  assumes "isOAuth c" and "transport e (sent c) fn params = Response 401 body"
  shows "send e c fn params =
           (Rejected (ExpiredTokenError (error_message (json_stringify e body))),
            c\<lparr>sent := sent c @ [(fn, params)]\<rparr>)"
  using assms by (simp add: send_def)

lemma send_success:
  assumes "transport e (sent c) fn params = Response statusCode body"
    and "statusCode < 300" and "\<not> nullish body"
  shows "send e c fn params =
           (Resolved (if truthy (js_prop body ''data'') then js_prop body ''data'' else body),
            c\<lparr>sent := sent c @ [(fn, params)]\<rparr>)"
  using assms by (auto simp add: send_def)

lemma refreshToken_granted:
  assumes rp: "getRequestParams e c ''POST'' ''/oauth/token'' (refresh_grant c) = Inr rparams"
    and reply: "transport e (sent c) POST rparams = Response statusCode body"
    and ok: "statusCode < 300" "\<not> nullish body"
    and res: "res = (if truthy (js_prop body ''data'') then js_prop body ''data'' else body)"
    and tr: "truthy res"
  shows "refreshToken e c =
           (let c2 = c\<lparr>priv_accessToken := js_prop res ''access_token'',
                        priv_refreshToken := js_prop res ''refresh_token'',
                        sent := sent c @ [(POST, rparams)]\<rparr>
            in case priv_events c ''didRefreshToken'' of
                 None \<Rightarrow> (Resolved res, c2)
               | Some eventFn \<Rightarrow>
                   (case eventFn res of
                      Fulfilled \<Rightarrow> (Resolved res, c2\<lparr>notified := notified c @ [res]\<rparr>)
                    | Threw x \<Rightarrow> (Rejected (HandlerError x), c2\<lparr>notified := notified c @ [res]\<rparr>)
                    | NeverSettles \<Rightarrow> (Pending, c2\<lparr>notified := notified c @ [res]\<rparr>)))"
proof -
  have "httpPost e c ''/oauth/token'' (refresh_grant c) False =
          (Resolved res, c\<lparr>sent := sent c @ [(POST, rparams)]\<rparr>)"
    using rp reply ok res by (simp add: httpPost.simps httpRequest_no_refresh send_success)
  then show ?thesis
    using tr by (simp add: refreshToken.simps Let_def split: option.splits settled.splits)
qed

lemma sent_send: "sent (snd (send e c fn params)) = sent c @ [(fn, params)]"
  by (simp add: send_def Let_def split: reply.splits)

lemma refreshToken_sent:
  assumes "getRequestParams e c ''POST'' ''/oauth/token'' (refresh_grant c) = Inr rparams"
  shows "sent (snd (refreshToken e c)) = sent c @ [(POST, rparams)]"
proof -
  obtain out c1 where s: "send e c POST rparams = (out, c1)" by (cases "send e c POST rparams")
  then have "sent c1 = sent c @ [(POST, rparams)]"
    using sent_send [of e c POST rparams] by simp
  then show ?thesis
    using assms s
    by (simp add: refreshToken.simps httpPost.simps httpRequest_no_refresh Let_def
        split: outcome.splits option.splits settled.splits)
qed

lemma httpRequest_expired_sent:
  assumes oauth: "isOAuth c"
    and first: "transport e (sent c) fn params = Response 401 body"
    and rp: "getRequestParams e c ''POST'' ''/oauth/token'' (refresh_grant c) = Inr rparams"
  shows "\<exists>rest. sent (snd (httpRequest e c fn params True)) =
                  sent c @ (fn, params) # (POST, rparams) # rest"
proof -
  let ?c1 = "c\<lparr>sent := sent c @ [(fn, params)]\<rparr>"
  have s1: "send e c fn params =
              (Rejected (ExpiredTokenError (error_message (json_stringify e body))), ?c1)"
    using oauth first by (rule send_expired)
  obtain out c2 where r: "refreshToken e ?c1 = (out, c2)" by (cases "refreshToken e ?c1")
  have c2: "sent c2 = sent c @ [(fn, params), (POST, rparams)]"
    using refreshToken_sent [of e ?c1 rparams] rp r by simp
  show ?thesis
    using c2 by (simp add: httpRequest.simps s1 r sent_send split: outcome.splits)
qed

lemma getRequestParams_APIKey:
  assumes "\<not> isOAuth c"
    and "hmac_sha256_hex e (priv_apiSecret c)
           (show_nat (date_now e div 1000) @ method @ path
            @ (if truthy body then concat_text (json_stringify e body) else [])) = Some signature"
  shows "getRequestParams e c method path body =
     Inr ([(''url'', JStr (COINBASE_API @ path)),
           (''json'', JBool True),
           (''headers'', JObj
              [(''CB-VERSION'', JStr ''2016-08-09''),
               (''Content-Type'', JStr ''application/json''),
               (''Accept'', JStr ''application/json''),
               (''Accept-Language'', JStr ''en''),
               (''CB-ACCESS-KEY'', priv_apiKey c),
               (''CB-ACCESS-SIGN'', JStr signature),
               (''CB-ACCESS-TIMESTAMP'', JNum (int (date_now e div 1000)))])]
          @ (if \<not> nullish body \<and> entries_length body > 0 then [(''body'', body)] else []))"
  using assms
  by (simp add: getRequestParams_def getAuthHeaders_def getAPIAuthHeaders_def assign_def
      getDefaultHeaders_def assign_deep_fresh_key Let_def)

lemma snd_send: "snd (send e c fn params) = c\<lparr>sent := sent c @ [(fn, params)]\<rparr>"
  by (simp add: send_def Let_def split: reply.splits)

lemma send_Resolved_D:
  assumes "send e c fn params = (Resolved res, c1)"
  shows "\<exists>statusCode body. transport e (sent c) fn params = Response statusCode body
           \<and> statusCode < 300 \<and> \<not> nullish body
           \<and> res = (if truthy (js_prop body ''data'') then js_prop body ''data'' else body)"
proof (cases "transport e (sent c) fn params")
  case (Failure err)
  then show ?thesis using assms by (simp add: send_def)
next
  case (Response statusCode body)
  then have "statusCode < 300 \<and> \<not> nullish body
       \<and> res = (if truthy (js_prop body ''data'') then js_prop body ''data'' else body)"
    using assms by (auto simp add: send_def Let_def split: if_splits)
  then show ?thesis using Response by blast
qed

lemma send_Expired_D:
  assumes "send e c fn params = (Rejected err, c1)" and "is_ExpiredTokenError err"
  shows "isOAuth c"
  using assms by (auto simp add: send_def Let_def split: reply.splits if_splits)

lemma refreshToken_keeps_OAuth:
  assumes g: "refresh_grants_token e" and oauth: "isOAuth c"
  shows "isOAuth (snd (refreshToken e c))"
proof -
  obtain rparams where rp:
    "getRequestParams e c ''POST'' ''/oauth/token'' (refresh_grant c) = Inr rparams"
    and url: "map_of rparams ''url'' = Some (JStr (COINBASE_API @ ''/oauth/token''))"
    using getRequestParams_OAuth [OF oauth] by simp
  obtain out c1 where s: "send e c POST rparams = (out, c1)" by (cases "send e c POST rparams")
  have c1: "c1 = c\<lparr>sent := sent c @ [(POST, rparams)]\<rparr>"
    using snd_send [of e c POST rparams] s by simp
  show ?thesis
  proof (cases out)
    case (Resolved res)
    show ?thesis
    proof (cases "truthy res")
      case True
      obtain statusCode body where
        "transport e (sent c) POST rparams = Response statusCode body"
        "statusCode < 300" "\<not> nullish body"
        "res = (if truthy (js_prop body ''data'') then js_prop body ''data'' else body)"
        using send_Resolved_D s Resolved by blast
      then have "\<not> nullish (js_prop res ''access_token'')"
        using g url True unfolding refresh_grants_token_def by blast
      then show ?thesis
        using rp s Resolved True c1
        by (simp add: refreshToken.simps httpPost.simps httpRequest_no_refresh Let_def isOAuth_def
            split: option.splits settled.splits)
    next
      case False
      then show ?thesis
        using rp s Resolved c1 oauth
        by (simp add: refreshToken.simps httpPost.simps httpRequest_no_refresh)
    qed
  qed (use rp s c1 oauth in \<open>simp_all add: refreshToken.simps httpPost.simps httpRequest_no_refresh\<close>)
qed

lemma httpRequest_keeps_mode:
  assumes g: "refresh_grants_token e"
  shows "isOAuth (snd (httpRequest e c fn params refresh)) = isOAuth c"
proof -
  obtain out c1 where s: "send e c fn params = (out, c1)" by (cases "send e c fn params")
  have c1: "c1 = c\<lparr>sent := sent c @ [(fn, params)]\<rparr>"
    using snd_send [of e c fn params] s by simp
  show ?thesis
  proof (cases "\<exists>err. out = Rejected err \<and> is_ExpiredTokenError err \<and> refresh")
    case True
    then obtain err where out: "out = Rejected err" and ex: "is_ExpiredTokenError err"
      and rf: "refresh" by blast
    have oauth: "isOAuth c" using send_Expired_D s out ex by blast
    then have o1: "isOAuth c1" using c1 by simp
    obtain out2 c2 where r: "refreshToken e c1 = (out2, c2)" by (cases "refreshToken e c1")
    have o2: "isOAuth c2" using refreshToken_keeps_OAuth [OF g o1] r by simp
    have "isOAuth (snd (send e c2 fn' params')) = isOAuth c2" for fn' params'
      by (simp add: snd_send)
    then show ?thesis
      using s out ex rf r o2 oauth
      by (simp add: httpRequest.simps split: outcome.splits)
  next
    case False
    then show ?thesis
      using s c1 by (auto simp add: httpRequest.simps split: outcome.splits)
  qed
qed

lemma getRequestParams_body:
  assumes "getRequestParams e c method path body = Inr params"
  shows "map_of params ''body'' =
           (if \<not> nullish body \<and> entries_length body > 0 then Some body else None)"
proof (cases "isOAuth c")
  case True
  then show ?thesis using assms by (auto simp add: getRequestParams_OAuth)
next
  case False
  then obtain signature where "hmac_sha256_hex e (priv_apiSecret c)
           (show_nat (date_now e div 1000) @ method @ path
            @ (if truthy body then concat_text (json_stringify e body) else [])) = Some signature"
    using assms
    by (auto simp add: getRequestParams_def getAuthHeaders_def getAPIAuthHeaders_def Let_def
        split: option.splits)
  then show ?thesis
    using assms by (auto simp add: getRequestParams_APIKey [OF False])
qed

lemma assign_auth_keeps_body:
  "map_of (assign params [[(''auth'', JObj s)]]) ''body'' = map_of params ''body''"
  by (simp add: assign_def update_conv')

lemma httpRequest_sent_shape:
  "\<exists>rest. sent (snd (httpRequest e c fn params refresh)) = sent c @ (fn, params) # rest
     \<and> (rest = []
        \<or> (\<exists>rparams. getRequestParams e c ''POST'' ''/oauth/token'' (refresh_grant c) = Inr rparams
             \<and> isOAuth c
             \<and> (rest = [(POST, rparams)]
                \<or> (\<exists>tok. rest = [(POST, rparams),
                      (fn, assign params [[(''auth'', JObj [(''bearer'', tok)])]])]))))"
proof -
  obtain out c1 where s: "send e c fn params = (out, c1)" by (cases "send e c fn params")
  have c1: "c1 = c\<lparr>sent := sent c @ [(fn, params)]\<rparr>"
    using snd_send [of e c fn params] s by simp
  show ?thesis
  proof (cases "\<exists>err. out = Rejected err \<and> is_ExpiredTokenError err \<and> refresh")
    case True
    then obtain err where out: "out = Rejected err" and ex: "is_ExpiredTokenError err"
      and rf: "refresh" by blast
    have oauth: "isOAuth c" using send_Expired_D s out ex by blast
    obtain rparams where rp:
      "getRequestParams e c ''POST'' ''/oauth/token'' (refresh_grant c) = Inr rparams"
      using getRequestParams_OAuth [OF oauth] by simp
    obtain out2 c2 where r: "refreshToken e c1 = (out2, c2)" by (cases "refreshToken e c1")
    have c2: "sent c2 = sent c @ [(fn, params), (POST, rparams)]"
      using refreshToken_sent [of e c1 rparams] rp r c1 by simp
    have "sent (snd (httpRequest e c fn params refresh)) = sent c2
          \<or> sent (snd (httpRequest e c fn params refresh)) =
              sent c2 @ [(fn, assign params [getOAuthHeaders c2])]"
      using s out ex rf r
      by (simp add: httpRequest.simps sent_send split: outcome.splits)
    then show ?thesis
      using c2 rp oauth by (auto simp add: getOAuthHeaders_def)
  next
    case False
    then have "sent (snd (httpRequest e c fn params refresh)) = sent c @ [(fn, params)]"
      using s c1 by (auto simp add: httpRequest.simps split: outcome.splits)
    then show ?thesis by simp
  qed
qed

lemma assign_one_string:
  "assign target [[(key, JStr s)]] = AList.update key (JStr s) target"
  by (simp add: assign_def)

lemma send_401:
  assumes "transport e (sent c) fn params = Response 401 body"
  shows "send e c fn params =
           (Rejected (if isOAuth c
                      then ExpiredTokenError (error_message (json_stringify e body))
                      else Error (''HTTP error 401 '' @ concat_text (json_stringify e body))),
            c\<lparr>sent := sent c @ [(fn, params)]\<rparr>)"
proof -
  have "show_nat 401 = ''401''" by (simp add: show_nat.simps)
  then show ?thesis using assms by (simp add: send_def)
qed

section \<open>The refresh and retry path\<close>

text \<open>
  C1.  An OAuth request whose first response is a 401, whose refresh call succeeds (a
  status below 300 and a truthy result) with the registered \<^verbatim>\<open>didRefreshToken\<close>
  function fulfilling, and whose retry succeeds: the caller gets the payload of the retried
  request; the stored access and refresh tokens are those of the refresh result; the
  transport has seen exactly three requests (the original one, one refresh call, the retry
  with the new bearer token); and the event function has been called exactly once, with
  the whole refresh result.
\<close>

theorem refresh_then_retry_succeeds:
  assumes oauth: "isOAuth c"
    and first: "transport e (sent c) fn params = Response 401 body1"
    and rp: "getRequestParams e c ''POST'' ''/oauth/token'' (refresh_grant c) = Inr rparams"
    and second: "transport e (sent c @ [(fn, params)]) POST rparams = Response status2 body2"
    and ok2: "status2 < 300" "\<not> nullish body2"
    and res: "res = (if truthy (js_prop body2 ''data'') then js_prop body2 ''data'' else body2)"
    and tr: "truthy res"
    and handler: "priv_events c ''didRefreshToken'' = Some eventFn" "eventFn res = Fulfilled"
    and third: "transport e (sent c @ [(fn, params), (POST, rparams)]) fn
                  (assign params [[(''auth'', JObj [(''bearer'', js_prop res ''access_token'')])]])
                = Response status3 body3"
    and ok3: "status3 < 300" "\<not> nullish body3"
  shows "httpRequest e c fn params True =
           (Resolved (if truthy (js_prop body3 ''data'') then js_prop body3 ''data'' else body3),
            c\<lparr>priv_accessToken := js_prop res ''access_token'',
               priv_refreshToken := js_prop res ''refresh_token'',
               sent := sent c @ [(fn, params), (POST, rparams),
                 (fn, assign params [[(''auth'', JObj [(''bearer'', js_prop res ''access_token'')])]])],
               notified := notified c @ [res]\<rparr>)"
proof -
  let ?c1 = "c\<lparr>sent := sent c @ [(fn, params)]\<rparr>"
  let ?c2 = "c\<lparr>priv_accessToken := js_prop res ''access_token'',
               priv_refreshToken := js_prop res ''refresh_token'',
               sent := sent c @ [(fn, params), (POST, rparams)],
               notified := notified c @ [res]\<rparr>"
  have s1: "send e c fn params =
              (Rejected (ExpiredTokenError (error_message (json_stringify e body1))), ?c1)"
    using oauth first by (rule send_expired)
  have r: "refreshToken e ?c1 = (Resolved res, ?c2)"
    using rp second ok2 res tr handler
    by (simp add: refreshToken_granted
        [where rparams = rparams and statusCode = status2 and body = body2 and res = res])
  have s2: "send e ?c2 fn (assign params [getOAuthHeaders ?c2]) =
              (Resolved (if truthy (js_prop body3 ''data'') then js_prop body3 ''data'' else body3),
               ?c2\<lparr>sent := sent ?c2 @ [(fn, assign params [getOAuthHeaders ?c2])]\<rparr>)"
    using third ok3 by (intro send_success) (simp_all add: getOAuthHeaders_def)
  show ?thesis
    using tr by (simp add: httpRequest.simps s1 r s2) (simp add: getOAuthHeaders_def)
qed

theorem refresh_then_retry_succeeds_witness:
  "httpRequest
     (platform [Response 401 (JObj [(''errors'', JArr [])]),
                Response 200 token_payload,
                Response 200 (JObj [(''data'', JObj [(''id'', JStr ''u1'')])])])
     (on oauth_client ''didRefreshToken'' (\<lambda>res. Fulfilled))
     GET user_request True =
   (Resolved (JObj [(''id'', JStr ''u1'')]),
    (on oauth_client ''didRefreshToken'' (\<lambda>res. Fulfilled))
      \<lparr>priv_accessToken := JStr ''new'',
       priv_refreshToken := JStr ''r2'',
       sent := [(GET, user_request), (POST, oauth_refresh_request),
                (GET, [(''url'', JStr ''https://api.coinbase.com/v2/user''),
                       (''auth'', JObj [(''bearer'', JStr ''new'')])])],
       notified := [token_payload]\<rparr>)"
proof -
  let ?e = "platform [Response 401 (JObj [(''errors'', JArr [])]),
                Response 200 token_payload,
                Response 200 (JObj [(''data'', JObj [(''id'', JStr ''u1'')])])]"
  let ?c = "on oauth_client ''didRefreshToken'' (\<lambda>res. Fulfilled)"
  have h1: "isOAuth ?c" by (simp add: fixture_defs)
  have h2: "transport ?e (sent ?c) GET user_request = Response 401 (JObj [(''errors'', JArr [])])"
    by (simp add: fixture_defs)
  have h3: "getRequestParams ?e ?c ''POST'' ''/oauth/token'' (refresh_grant ?c) = Inr oauth_refresh_request"
    by (simp add: getRequestParams_OAuth h1) (simp add: fixture_defs)
  have h4: "transport ?e (sent ?c @ [(GET, user_request)]) POST oauth_refresh_request = Response 200 token_payload"
    by (simp add: fixture_defs)
  have h5: "(200::nat) < 300" "\<not> nullish token_payload" by (simp_all add: fixture_defs)
  have h6: "token_payload = (if truthy (js_prop token_payload ''data'') then js_prop token_payload ''data'' else token_payload)"
    by (simp add: fixture_defs)
  have h7: "truthy token_payload" by (simp add: fixture_defs)
  have h8: "priv_events ?c ''didRefreshToken'' = Some (\<lambda>res. Fulfilled)" "(\<lambda>res. Fulfilled) token_payload = Fulfilled"
    by (simp_all add: fixture_defs)
  have h9: "transport ?e (sent ?c @ [(GET, user_request), (POST, oauth_refresh_request)]) GET
              (assign user_request [[(''auth'', JObj [(''bearer'', js_prop token_payload ''access_token'')])]])
            = Response 200 (JObj [(''data'', JObj [(''id'', JStr ''u1'')])])"
    by (simp add: fixture_defs)
  have h10: "\<not> nullish (JObj [(''data'', JObj [(''id'', JStr ''u1'')])])" by simp
  show ?thesis
    using refresh_then_retry_succeeds [OF h1 h2 h3 h4 h5 h6 h7 h8 h9 h5(1) h10]
    by (simp add: fixture_defs assign_def)
qed

text \<open>
  C4 (amended).  An OAuth request whose first response is a 401, whose refresh succeeds (a
  status below 300 and a truthy result, the event function, if one is registered,
  fulfilling), and whose retry is answered by a 401 again: the caller gets the error made
  from the body of the second 401, which is the expired-token error when the refresh result
  carried an access token (one that is not \<^verbatim>\<open>null\<close> or \<^verbatim>\<open>undefined\<close>) and the
  HTTP status error otherwise; and the transport has seen exactly three requests, of which
  exactly one is the refresh call: no second refresh is made.
\<close>

theorem second_401_is_terminal:
  assumes oauth: "isOAuth c"
    and first: "transport e (sent c) fn params = Response 401 body1"
    and rp: "getRequestParams e c ''POST'' ''/oauth/token'' (refresh_grant c) = Inr rparams"
    and second: "transport e (sent c @ [(fn, params)]) POST rparams = Response status2 body2"
    and ok2: "status2 < 300" "\<not> nullish body2"
    and res: "res = (if truthy (js_prop body2 ''data'') then js_prop body2 ''data'' else body2)"
    and tr: "truthy res"
    and handler: "priv_events c ''didRefreshToken'' = None \<or>
                  (\<exists>eventFn. priv_events c ''didRefreshToken'' = Some eventFn \<and> eventFn res = Fulfilled)"
    and third: "transport e (sent c @ [(fn, params), (POST, rparams)]) fn
                  (assign params [[(''auth'', JObj [(''bearer'', js_prop res ''access_token'')])]])
                = Response 401 body3"
  shows "fst (httpRequest e c fn params True) =
           Rejected (if \<not> nullish (js_prop res ''access_token'')
                     then ExpiredTokenError (error_message (json_stringify e body3))
                     else Error (''HTTP error 401 '' @ concat_text (json_stringify e body3)))
         \<and> sent (snd (httpRequest e c fn params True)) =
             sent c @ [(fn, params), (POST, rparams),
               (fn, assign params [[(''auth'', JObj [(''bearer'', js_prop res ''access_token'')])]])]"
proof -
  let ?c1 = "c\<lparr>sent := sent c @ [(fn, params)]\<rparr>"
  let ?t = "c\<lparr>priv_accessToken := js_prop res ''access_token'',
               priv_refreshToken := js_prop res ''refresh_token'',
               sent := sent c @ [(fn, params), (POST, rparams)]\<rparr>"
  have s1: "send e c fn params =
              (Rejected (ExpiredTokenError (error_message (json_stringify e body1))), ?c1)"
    using oauth first by (rule send_expired)
  have rp1: "getRequestParams e ?c1 ''POST'' ''/oauth/token'' (refresh_grant ?c1) = Inr rparams"
    using rp by simp
  have second1: "transport e (sent ?c1) POST rparams = Response status2 body2"
    using second by simp
  note granted = refreshToken_granted [OF rp1 second1 ok2 res tr]
  define n where "n = (case priv_events c ''didRefreshToken'' of
                         None \<Rightarrow> notified c | Some eventFn \<Rightarrow> notified c @ [res])"
  have r': "refreshToken e ?c1 = (Resolved res, ?t\<lparr>notified := n\<rparr>)"
    using handler
  proof
    assume "priv_events c ''didRefreshToken'' = None"
    then show ?thesis by (simp add: granted n_def)
  next
    assume "\<exists>eventFn. priv_events c ''didRefreshToken'' = Some eventFn \<and> eventFn res = Fulfilled"
    then obtain eventFn where "priv_events c ''didRefreshToken'' = Some eventFn"
      and "eventFn res = Fulfilled" by blast
    then show ?thesis by (simp add: granted n_def)
  qed
  let ?c2 = "?t\<lparr>notified := n\<rparr>"
  have o2: "isOAuth ?c2 = (\<not> nullish (js_prop res ''access_token''))"
    by (simp add: isOAuth_def)
  have t2: "transport e (sent ?c2) fn (assign params [getOAuthHeaders ?c2]) = Response 401 body3"
    using third by (simp add: getOAuthHeaders_def)
  have s2: "send e ?c2 fn (assign params [getOAuthHeaders ?c2]) =
              (Rejected (if \<not> nullish (js_prop res ''access_token'')
                         then ExpiredTokenError (error_message (json_stringify e body3))
                         else Error (''HTTP error 401 '' @ concat_text (json_stringify e body3))),
               ?c2\<lparr>sent := sent ?c2 @ [(fn, assign params [getOAuthHeaders ?c2])]\<rparr>)"
    using send_401 [OF t2] o2 by simp
  show ?thesis
    using tr by (simp add: httpRequest.simps s1 r' s2) (simp add: getOAuthHeaders_def)
qed

theorem second_401_is_terminal_witness:
  "fst (httpRequest
          (platform [Response 401 (JStr ''expired''), Response 200 token_payload,
                     Response 401 (JStr ''still expired'')])
          oauth_client GET user_request True) =
     Rejected (ExpiredTokenError ''still expired'')
   \<and> sent (snd (httpRequest
          (platform [Response 401 (JStr ''expired''), Response 200 token_payload,
                     Response 401 (JStr ''still expired'')])
          oauth_client GET user_request True)) =
       [(GET, user_request), (POST, oauth_refresh_request),
        (GET, [(''url'', JStr ''https://api.coinbase.com/v2/user''),
               (''auth'', JObj [(''bearer'', JStr ''new'')])])]"
proof -
  let ?e = "platform [Response 401 (JStr ''expired''), Response 200 token_payload,
                      Response 401 (JStr ''still expired'')]"
  let ?c = "oauth_client"
  have h1: "isOAuth ?c" by (simp add: fixture_defs)
  have h2: "transport ?e (sent ?c) GET user_request = Response 401 (JStr ''expired'')"
    by (simp add: fixture_defs)
  have h3: "getRequestParams ?e ?c ''POST'' ''/oauth/token'' (refresh_grant ?c) =
              Inr oauth_refresh_request"
    by (simp add: getRequestParams_OAuth h1) (simp add: fixture_defs)
  have h4: "transport ?e (sent ?c @ [(GET, user_request)]) POST oauth_refresh_request =
              Response 200 token_payload"
    by (simp add: fixture_defs)
  have h5: "(200::nat) < 300" "\<not> nullish token_payload" by (simp_all add: fixture_defs)
  have h6: "token_payload = (if truthy (js_prop token_payload ''data'')
                             then js_prop token_payload ''data'' else token_payload)"
    by (simp add: fixture_defs)
  have h7: "truthy token_payload" by (simp add: fixture_defs)
  have h8: "priv_events ?c ''didRefreshToken'' = None \<or>
            (\<exists>eventFn. priv_events ?c ''didRefreshToken'' = Some eventFn
               \<and> eventFn token_payload = Fulfilled)"
    by (simp add: fixture_defs)
  have h9: "transport ?e (sent ?c @ [(GET, user_request), (POST, oauth_refresh_request)]) GET
              (assign user_request
                 [[(''auth'', JObj [(''bearer'', js_prop token_payload ''access_token'')])]])
            = Response 401 (JStr ''still expired'')"
    by (simp add: fixture_defs)
  show ?thesis
    using second_401_is_terminal [OF h1 h2 h3 h4 h5 h6 h7 h8 h9]
    by (simp add: fixture_defs assign_def)
qed

text \<open>
  The claim as stated fails: when the refresh is answered with status 200 and a truthy
  result that has no \<^verbatim>\<open>access_token\<close> (here \<^verbatim>\<open>{token_type: 'bearer'}\<close>), the
  stored token becomes \<^verbatim>\<open>undefined\<close>, the client no longer counts as OAuth, and the
  second 401 reaches the caller as the HTTP status error, not as the expired-token error.
  The refresh call is still made exactly once.
\<close>

theorem second_401_without_token_counterexample:
  "fst (httpRequest
          (platform [Response 401 (JStr ''expired''),
                     Response 200 (JObj [(''token_type'', JStr ''bearer'')]),
                     Response 401 (JStr ''still expired'')])
          oauth_client GET user_request True) =
     Rejected (Error ''HTTP error 401 still expired'')
   \<and> fst (httpRequest
          (platform [Response 401 (JStr ''expired''),
                     Response 200 (JObj [(''token_type'', JStr ''bearer'')]),
                     Response 401 (JStr ''still expired'')])
          oauth_client GET user_request True) \<noteq>
     Rejected (ExpiredTokenError ''still expired'')
   \<and> map fst (sent (snd (httpRequest
          (platform [Response 401 (JStr ''expired''),
                     Response 200 (JObj [(''token_type'', JStr ''bearer'')]),
                     Response 401 (JStr ''still expired'')])
          oauth_client GET user_request True))) = [GET, POST, GET]"
proof -
  let ?e = "platform [Response 401 (JStr ''expired''),
                      Response 200 (JObj [(''token_type'', JStr ''bearer'')]),
                      Response 401 (JStr ''still expired'')]"
  let ?c1 = "oauth_client\<lparr>sent := [(GET, user_request)]\<rparr>"
  let ?c2 = "oauth_client\<lparr>priv_accessToken := JUndefined, priv_refreshToken := JUndefined,
               sent := [(GET, user_request), (POST, oauth_refresh_request)]\<rparr>"
  let ?retry = "assign user_request [getOAuthHeaders ?c2]"
  have o: "isOAuth oauth_client" by (simp add: fixture_defs)
  have n: "show_nat 401 = ''401''" by (simp add: show_nat.simps)
  have s1: "send ?e oauth_client GET user_request =
              (Rejected (ExpiredTokenError ''expired''), ?c1)"
    by (simp add: send_def fixture_defs)
  have rp: "getRequestParams ?e oauth_client ''POST'' ''/oauth/token''
              (refresh_grant oauth_client) = Inr oauth_refresh_request"
    by (simp add: getRequestParams_OAuth o) (simp add: fixture_defs)
  have s2: "send ?e ?c1 POST oauth_refresh_request =
              (Resolved (JObj [(''token_type'', JStr ''bearer'')]),
               oauth_client\<lparr>sent := [(GET, user_request), (POST, oauth_refresh_request)]\<rparr>)"
    by (simp add: send_def fixture_defs)
  have ev: "priv_events oauth_client ''didRefreshToken'' = None" by (simp add: fixture_defs)
  have r: "refreshToken ?e ?c1 = (Resolved (JObj [(''token_type'', JStr ''bearer'')]), ?c2)"
    by (simp add: refreshToken.simps httpPost.simps rp httpRequest_no_refresh s2 ev)
  have s3: "send ?e ?c2 GET ?retry =
              (Rejected (Error ''HTTP error 401 still expired''),
               ?c2\<lparr>sent := [(GET, user_request), (POST, oauth_refresh_request),
                               (GET, ?retry)]\<rparr>)"
    by (simp add: send_def n platform_def scripted_def stub_stringify_def isOAuth_def)
  show ?thesis
    by (simp add: httpRequest.simps s1 r s3)
qed

text \<open>
  C8.  An OAuth request that hits a 401 and whose refresh call succeeds at the HTTP level:
  if the registered \<^verbatim>\<open>didRefreshToken\<close> function throws, the caller gets that very
  value as the rejection, and the log of requests ends with the refresh call: the retry is
  never issued.  (The new tokens have been stored by then.)
\<close>

theorem handler_failure_aborts_retry:
  assumes oauth: "isOAuth c"
    and first: "transport e (sent c) fn params = Response 401 body1"
    and rp: "getRequestParams e c ''POST'' ''/oauth/token'' (refresh_grant c) = Inr rparams"
    and second: "transport e (sent c @ [(fn, params)]) POST rparams = Response status2 body2"
    and ok2: "status2 < 300" "\<not> nullish body2"
    and res: "res = (if truthy (js_prop body2 ''data'') then js_prop body2 ''data'' else body2)"
    and tr: "truthy res"
    and handler: "priv_events c ''didRefreshToken'' = Some eventFn" "eventFn res = Threw x"
  shows "httpRequest e c fn params True =
           (Rejected (HandlerError x),
            c\<lparr>priv_accessToken := js_prop res ''access_token'',
               priv_refreshToken := js_prop res ''refresh_token'',
               sent := sent c @ [(fn, params), (POST, rparams)],
               notified := notified c @ [res]\<rparr>)"
proof -
  let ?c1 = "c\<lparr>sent := sent c @ [(fn, params)]\<rparr>"
  let ?c2 = "c\<lparr>priv_accessToken := js_prop res ''access_token'',
               priv_refreshToken := js_prop res ''refresh_token'',
               sent := sent c @ [(fn, params), (POST, rparams)],
               notified := notified c @ [res]\<rparr>"
  have s1: "send e c fn params =
              (Rejected (ExpiredTokenError (error_message (json_stringify e body1))), ?c1)"
    using oauth first by (rule send_expired)
  have r: "refreshToken e ?c1 = (Rejected (HandlerError x), ?c2)"
    using rp second ok2 res tr handler
    by (simp add: refreshToken_granted
        [where rparams = rparams and statusCode = status2 and body = body2 and res = res])
  show ?thesis
    by (simp add: httpRequest.simps s1 r)
qed

theorem handler_failure_aborts_retry_witness:
  "httpRequest
     (platform [Response 401 (JStr ''expired''), Response 200 token_payload,
                Response 200 (JObj [(''data'', JObj [(''id'', JStr ''u1'')])])])
     (on oauth_client ''didRefreshToken'' (\<lambda>res. Threw (JStr ''save failed'')))
     GET user_request True =
   (Rejected (HandlerError (JStr ''save failed'')),
    (on oauth_client ''didRefreshToken'' (\<lambda>res. Threw (JStr ''save failed'')))
      \<lparr>priv_accessToken := JStr ''new'',
       priv_refreshToken := JStr ''r2'',
       sent := [(GET, user_request), (POST, oauth_refresh_request)],
       notified := [token_payload]\<rparr>)"
proof -
  let ?e = "platform [Response 401 (JStr ''expired''), Response 200 token_payload,
                Response 200 (JObj [(''data'', JObj [(''id'', JStr ''u1'')])])]"
  let ?c = "on oauth_client ''didRefreshToken'' (\<lambda>res. Threw (JStr ''save failed''))"
  have h1: "isOAuth ?c" by (simp add: fixture_defs)
  have h2: "transport ?e (sent ?c) GET user_request = Response 401 (JStr ''expired'')"
    by (simp add: fixture_defs)
  have h3: "getRequestParams ?e ?c ''POST'' ''/oauth/token'' (refresh_grant ?c) =
              Inr oauth_refresh_request"
    by (simp add: getRequestParams_OAuth h1) (simp add: fixture_defs)
  have h4: "transport ?e (sent ?c @ [(GET, user_request)]) POST oauth_refresh_request =
              Response 200 token_payload"
    by (simp add: fixture_defs)
  have h5: "(200::nat) < 300" "\<not> nullish token_payload" by (simp_all add: fixture_defs)
  have h6: "token_payload = (if truthy (js_prop token_payload ''data'')
                             then js_prop token_payload ''data'' else token_payload)"
    by (simp add: fixture_defs)
  have h7: "truthy token_payload" by (simp add: fixture_defs)
  have h8: "priv_events ?c ''didRefreshToken'' = Some (\<lambda>res. Threw (JStr ''save failed''))"
    "(\<lambda>res. Threw (JStr ''save failed'')) token_payload = Threw (JStr ''save failed'')"
    by (simp_all add: fixture_defs)
  show ?thesis
    using handler_failure_aborts_retry [OF h1 h2 h3 h4 h5 h6 h7 h8]
    by (simp add: fixture_defs)
qed

section \<open>Reading a response\<close>

text \<open>
  C2 (amended).  For every response with a success status (below 300, so every 2xx) whose
  decoded body is neither \<^verbatim>\<open>null\<close> nor \<^verbatim>\<open>undefined\<close>, whatever the
  \<^verbatim>\<open>refresh\<close> flag: the caller gets the body's \<^verbatim>\<open>data\<close> field when that field
  holds a truthy value, and the decoded body unchanged otherwise, that is when the body has
  no \<^verbatim>\<open>data\<close> field and also when the field is there with a falsy value such as
  \<^verbatim>\<open>null\<close>, \<^verbatim>\<open>0\<close> or the empty string.
\<close>

theorem envelope_unwrapping:
  assumes "transport e (sent c) fn params = Response statusCode body"
    and "statusCode < 300" and "\<not> nullish body"
  shows "fst (httpRequest e c fn params refresh) =
           Resolved (if truthy (js_prop body ''data'') then js_prop body ''data'' else body)"
  using assms by (simp add: httpRequest.simps send_success)

theorem envelope_unwrapping_witness:
  "fst (httpRequest (platform [Response 200 (JObj [(''data'', JObj [(''a'', JNum 1)])])])
          api_client GET user_request True) = Resolved (JObj [(''a'', JNum 1)])
   \<and> fst (httpRequest (platform [Response 200 (JObj [(''a'', JNum 1)])])
          api_client GET user_request True) = Resolved (JObj [(''a'', JNum 1)])
   \<and> fst (httpRequest (platform [Response 200 (JObj [(''data'', JNull)])])
          api_client GET user_request True) = Resolved (JObj [(''data'', JNull)])"
proof -
  have ok: "(200::nat) < 300" by simp
  have a: "transport (platform [Response 200 body]) (sent api_client) GET user_request =
             Response 200 body" for body
    by (simp add: fixture_defs)
  show ?thesis
    using envelope_unwrapping [OF a ok, of "JObj [(''data'', JObj [(''a'', JNum 1)])]" True]
      envelope_unwrapping [OF a ok, of "JObj [(''a'', JNum 1)]" True]
      envelope_unwrapping [OF a ok, of "JObj [(''data'', JNull)]" True]
    by simp
qed

text \<open>
  The claim as stated fails: the body \<^verbatim>\<open>{data: 0}\<close> contains a \<^verbatim>\<open>data\<close> field, and
  the caller gets the whole body, not the value \<^verbatim>\<open>0\<close> of the field.
\<close>

theorem envelope_falsy_data_counterexample:
  "map_of [(''data'', JNum 0)] ''data'' = Some (JNum 0)
   \<and> fst (httpRequest (platform [Response 200 (JObj [(''data'', JNum 0)])])
            api_client GET user_request True) = Resolved (JObj [(''data'', JNum 0)])
   \<and> fst (httpRequest (platform [Response 200 (JObj [(''data'', JNum 0)])])
            api_client GET user_request True) \<noteq> Resolved (JNum 0)"
  by (simp add: httpRequest.simps send_def fixture_defs)

section \<open>What the caller is told\<close>

text \<open>
  C5.  The claim asks that a failure never ends in the call resolving with no value.  On
  this input the code does just that: the first response is a 401, the refresh call is
  answered with status 200 and the body \<^verbatim>\<open>false\<close>, so \<^verbatim>\<open>refreshToken\<close> resolves with
  a falsy result; \<^verbatim>\<open>httpRequest\<close> then leaves its \<^verbatim>\<open>catch\<close> block without returning
  or throwing, and the caller's promise resolves with \<^verbatim>\<open>undefined\<close>.  The 401 is lost.
\<close>

theorem falsy_refresh_resolves_undefined:
  "httpRequest (platform [Response 401 (JStr ''expired''), Response 200 (JBool False)])
     oauth_client GET user_request True =
   (Resolved JUndefined,
    oauth_client\<lparr>sent := [(GET, user_request), (POST, oauth_refresh_request)]\<rparr>)"
proof -
  let ?e = "platform [Response 401 (JStr ''expired''), Response 200 (JBool False)]"
  let ?c1 = "oauth_client\<lparr>sent := [(GET, user_request)]\<rparr>"
  let ?c2 = "oauth_client\<lparr>sent := [(GET, user_request), (POST, oauth_refresh_request)]\<rparr>"
  have o: "isOAuth oauth_client" by (simp add: fixture_defs)
  have s1: "send ?e oauth_client GET user_request =
              (Rejected (ExpiredTokenError ''expired''), ?c1)"
    by (simp add: send_def fixture_defs)
  have rp: "getRequestParams ?e oauth_client ''POST'' ''/oauth/token''
              (refresh_grant oauth_client) = Inr oauth_refresh_request"
    by (simp add: getRequestParams_OAuth o) (simp add: fixture_defs)
  have s2: "send ?e ?c1 POST oauth_refresh_request = (Resolved (JBool False), ?c2)"
    by (simp add: send_def fixture_defs)
  have r: "refreshToken ?e ?c1 = (Resolved (JBool False), ?c2)"
    by (simp add: refreshToken.simps httpPost.simps rp httpRequest_no_refresh s2)
  show ?thesis
    by (simp add: httpRequest.simps s1 r)
qed

section \<open>The refresh flag\<close>

text \<open>
  C3 (amended).  A request dispatched with \<^verbatim>\<open>refresh = false\<close> that is answered by a 401
  ends there: the caller gets the error made from that response (the expired-token error
  in OAuth mode, the HTTP error otherwise) and the transport has seen this one request and
  nothing else, so no refresh was started.  The refresh call itself is dispatched that way:
  a 401 on it makes \<^verbatim>\<open>refreshToken\<close> reject after that single request.  The revoke call
  is not: it takes the default \<^verbatim>\<open>refresh = true\<close>, and in OAuth mode a 401 on it is
  followed by the refresh call.
\<close>

theorem refresh_flag_false_is_terminal:
  "(transport e (sent c) fn params = Response 401 body \<longrightarrow>
      httpRequest e c fn params False =
        (Rejected (if isOAuth c
                   then ExpiredTokenError (error_message (json_stringify e body))
                   else Error (''HTTP error 401 '' @ concat_text (json_stringify e body))),
         c\<lparr>sent := sent c @ [(fn, params)]\<rparr>))
   \<and> (getRequestParams e c ''POST'' ''/oauth/token'' (refresh_grant c) = Inr rparams
        \<and> transport e (sent c) POST rparams = Response 401 body \<longrightarrow>
      refreshToken e c =
        (Rejected (if isOAuth c
                   then ExpiredTokenError (error_message (json_stringify e body))
                   else Error (''HTTP error 401 '' @ concat_text (json_stringify e body))),
         c\<lparr>sent := sent c @ [(POST, rparams)]\<rparr>))
   \<and> (isOAuth c
        \<and> getRequestParams e c ''POST'' ''/oauth/revoke'' (JObj [(''token'', JUndefined)])
            = Inr vparams
        \<and> transport e (sent c) POST vparams = Response 401 body
        \<and> getRequestParams e c ''POST'' ''/oauth/token'' (refresh_grant c) = Inr rparams \<longrightarrow>
      take 2 (drop (length (sent c)) (sent (snd (revokeToken e c)))) =
        [(POST, vparams), (POST, rparams)])"
proof -
  have n: "show_nat 401 = ''401''" by (simp add: show_nat.simps)
  have a: "httpRequest e c fn params False =
        (Rejected (if isOAuth c
                   then ExpiredTokenError (error_message (json_stringify e body))
                   else Error (''HTTP error 401 '' @ concat_text (json_stringify e body))),
         c\<lparr>sent := sent c @ [(fn, params)]\<rparr>)"
    if "transport e (sent c) fn params = Response 401 body" for fn params
    using that by (simp add: httpRequest_no_refresh send_def n)
  have b: "refreshToken e c =
        (Rejected (if isOAuth c
                   then ExpiredTokenError (error_message (json_stringify e body))
                   else Error (''HTTP error 401 '' @ concat_text (json_stringify e body))),
         c\<lparr>sent := sent c @ [(POST, rparams)]\<rparr>)"
    if "getRequestParams e c ''POST'' ''/oauth/token'' (refresh_grant c) = Inr rparams"
      and "transport e (sent c) POST rparams = Response 401 body"
    using that a [of POST rparams] by (simp add: refreshToken.simps httpPost.simps)
  have c: "take 2 (drop (length (sent c)) (sent (snd (revokeToken e c)))) =
        [(POST, vparams), (POST, rparams)]"
    if oauth: "isOAuth c"
      and vp: "getRequestParams e c ''POST'' ''/oauth/revoke'' (JObj [(''token'', JUndefined)])
            = Inr vparams"
      and first: "transport e (sent c) POST vparams = Response 401 body"
      and rp: "getRequestParams e c ''POST'' ''/oauth/token'' (refresh_grant c) = Inr rparams"
  proof -
    obtain rest where "sent (snd (httpRequest e c POST vparams True)) =
                         sent c @ (POST, vparams) # (POST, rparams) # rest"
      using httpRequest_expired_sent [OF oauth first rp] by blast
    then show ?thesis
      using vp by (simp add: revokeToken_def httpPost.simps)
  qed
  show ?thesis using a b c by blast
qed

theorem refresh_flag_false_is_terminal_witness:
  "httpRequest (platform [Response 401 (JStr ''expired'')]) oauth_client GET user_request False =
     (Rejected (ExpiredTokenError ''expired''), oauth_client\<lparr>sent := [(GET, user_request)]\<rparr>)
   \<and> refreshToken (platform [Response 401 (JStr ''expired'')]) oauth_client =
     (Rejected (ExpiredTokenError ''expired''),
      oauth_client\<lparr>sent := [(POST, oauth_refresh_request)]\<rparr>)
   \<and> take 2 (sent (snd (revokeToken (platform [Response 401 (JStr ''expired'')]) oauth_client))) =
     [(POST, oauth_revoke_request), (POST, oauth_refresh_request)]"
proof -
  let ?e = "platform [Response 401 (JStr ''expired'')]"
  have o: "isOAuth oauth_client" by (simp add: fixture_defs)
  have vp: "getRequestParams ?e oauth_client ''POST'' ''/oauth/revoke''
              (JObj [(''token'', JUndefined)]) = Inr oauth_revoke_request"
    by (simp add: getRequestParams_OAuth o) (simp add: fixture_defs)
  have rp: "getRequestParams ?e oauth_client ''POST'' ''/oauth/token''
              (refresh_grant oauth_client) = Inr oauth_refresh_request"
    by (simp add: getRequestParams_OAuth o) (simp add: fixture_defs)
  have t: "transport ?e [] fn params = Response 401 (JStr ''expired'')"
    for fn params
    by (simp add: fixture_defs)
  have s: "sent oauth_client = []" "json_stringify ?e (JStr ''expired'') = Some ''expired''"
    by (simp_all add: fixture_defs)
  show ?thesis
    using refresh_flag_false_is_terminal
      [of ?e oauth_client GET user_request "JStr ''expired''" oauth_refresh_request
          oauth_revoke_request]
    by (simp add: o vp rp t s)
qed

text \<open>
  The claim as stated fails on its first part: the revoke call is not dispatched with
  \<^verbatim>\<open>refresh = false\<close>.  With a transport that answers 401 to everything,
  \<^verbatim>\<open>revokeToken\<close> sends the revoke request and then the refresh request, which the same
  call with \<^verbatim>\<open>refresh = false\<close> does not.
\<close>

theorem revoke_refreshes_counterexample:
  "map (\<lambda>(fn, params). map_of params ''url'')
     (sent (snd (revokeToken
        (platform [Response 401 (JStr ''expired''), Response 401 (JStr ''expired'')])
        oauth_client))) =
     [Some (JStr ''https://api.coinbase.com/oauth/revoke''),
      Some (JStr ''https://api.coinbase.com/oauth/token'')]
   \<and> revokeToken
        (platform [Response 401 (JStr ''expired''), Response 401 (JStr ''expired'')])
        oauth_client \<noteq>
      httpPost
        (platform [Response 401 (JStr ''expired''), Response 401 (JStr ''expired'')])
        oauth_client ''/oauth/revoke'' (JObj [(''token'', JUndefined)]) False"
proof -
  let ?e = "platform [Response 401 (JStr ''expired''), Response 401 (JStr ''expired'')]"
  let ?c1 = "oauth_client\<lparr>sent := [(POST, oauth_revoke_request)]\<rparr>"
  let ?c2 = "oauth_client\<lparr>sent := [(POST, oauth_revoke_request), (POST, oauth_refresh_request)]\<rparr>"
  have o: "isOAuth oauth_client" by (simp add: fixture_defs)
  have vp: "getRequestParams ?e oauth_client ''POST'' ''/oauth/revoke''
              (JObj [(''token'', JUndefined)]) = Inr oauth_revoke_request"
    by (simp add: getRequestParams_OAuth o) (simp add: fixture_defs)
  have rp: "getRequestParams ?e oauth_client ''POST'' ''/oauth/token''
              (refresh_grant oauth_client) = Inr oauth_refresh_request"
    by (simp add: getRequestParams_OAuth o) (simp add: fixture_defs)
  have s1: "send ?e oauth_client POST oauth_revoke_request =
              (Rejected (ExpiredTokenError ''expired''), ?c1)"
    by (simp add: send_def fixture_defs)
  have s2: "send ?e ?c1 POST oauth_refresh_request =
              (Rejected (ExpiredTokenError ''expired''), ?c2)"
    by (simp add: send_def fixture_defs)
  have r: "refreshToken ?e ?c1 = (Rejected (ExpiredTokenError ''expired''), ?c2)"
    by (simp add: refreshToken.simps httpPost.simps rp httpRequest_no_refresh s2)
  have a: "revokeToken ?e oauth_client = (Rejected (ExpiredTokenError ''expired''), ?c2)"
    by (simp add: revokeToken_def httpPost.simps vp httpRequest.simps s1 r)
  have b: "httpPost ?e oauth_client ''/oauth/revoke'' (JObj [(''token'', JUndefined)]) False =
             (Rejected (ExpiredTokenError ''expired''), ?c1)"
    by (simp add: httpPost.simps vp httpRequest_no_refresh s1)
  have "sent ?c2 \<noteq> sent ?c1" by simp
  then have "?c2 \<noteq> ?c1" by metis
  then show ?thesis
    by (simp add: a b) (simp add: fixture_defs)
qed

section \<open>Signing in API-key mode\<close>

text \<open>
  C6.  In API-key mode, for every method, path and optional body for which the platform
  signs: the request that is built carries in \<^verbatim>\<open>CB-ACCESS-TIMESTAMP\<close> the clock reading
  in whole seconds, and in \<^verbatim>\<open>CB-ACCESS-SIGN\<close> the hex HMAC-SHA256 under the stored
  secret of the concatenation of that same timestamp in decimal, the method, the path and,
  when a body is given (\<^verbatim>\<open>body ? JSON.stringify(body) : ''\<close>), its JSON text, else the
  empty string.  The signature depends on nothing else: any client in API-key mode with
  the same secret, on a platform with the same clock reading, gets the same signature for
  the same method, path and body.
\<close>

theorem api_key_signature:
  assumes api: "\<not> isOAuth c"
    and sig: "hmac_sha256_hex e (priv_apiSecret c)
           (show_nat (date_now e div 1000) @ method @ path
            @ (if truthy body then concat_text (json_stringify e body) else [])) = Some signature"
  shows "\<exists>params. getRequestParams e c method path body = Inr params
           \<and> js_prop (js_prop (JObj params) ''headers'') ''CB-ACCESS-TIMESTAMP'' =
               JNum (int (date_now e div 1000))
           \<and> js_prop (js_prop (JObj params) ''headers'') ''CB-ACCESS-SIGN'' = JStr signature
           \<and> (\<forall>e' c'. \<not> isOAuth c' \<and> priv_apiSecret c' = priv_apiSecret c
                  \<and> date_now e' = date_now e \<and> hmac_sha256_hex e' = hmac_sha256_hex e
                  \<and> json_stringify e' = json_stringify e \<longrightarrow>
                (\<exists>params'. getRequestParams e' c' method path body = Inr params'
                   \<and> js_prop (js_prop (JObj params') ''headers'') ''CB-ACCESS-SIGN'' =
                       JStr signature))"
proof -
  have a: "js_prop (js_prop (JObj params) ''headers'') ''CB-ACCESS-SIGN'' = JStr signature
           \<and> js_prop (js_prop (JObj params) ''headers'') ''CB-ACCESS-TIMESTAMP'' =
               JNum (int (date_now e' div 1000))"
    if "getRequestParams e' c' method path body = Inr params"
      and "\<not> isOAuth c'"
      and "hmac_sha256_hex e' (priv_apiSecret c')
           (show_nat (date_now e' div 1000) @ method @ path
            @ (if truthy body then concat_text (json_stringify e' body) else [])) = Some signature"
    for e' c' params
    using that getRequestParams_APIKey [OF that(2) that(3)] by auto
  have b: "\<exists>params. getRequestParams e' c' method path body = Inr params"
    if "\<not> isOAuth c'"
      and "hmac_sha256_hex e' (priv_apiSecret c')
           (show_nat (date_now e' div 1000) @ method @ path
            @ (if truthy body then concat_text (json_stringify e' body) else [])) = Some signature"
    for e' c'
    using getRequestParams_APIKey [OF that] by simp
  obtain params where p: "getRequestParams e c method path body = Inr params"
    using b [OF api sig] by blast
  have other: "\<exists>params'. getRequestParams e' c' method path body = Inr params'
                   \<and> js_prop (js_prop (JObj params') ''headers'') ''CB-ACCESS-SIGN'' =
                       JStr signature"
    if h: "\<not> isOAuth c' \<and> priv_apiSecret c' = priv_apiSecret c
                  \<and> date_now e' = date_now e \<and> hmac_sha256_hex e' = hmac_sha256_hex e
                  \<and> json_stringify e' = json_stringify e" for e' c'
  proof -
    have s: "hmac_sha256_hex e' (priv_apiSecret c')
           (show_nat (date_now e' div 1000) @ method @ path
            @ (if truthy body then concat_text (json_stringify e' body) else [])) = Some signature"
      using sig h by (cases "truthy body") simp_all
    obtain params' where p': "getRequestParams e' c' method path body = Inr params'"
      using b [OF _ s] h by blast
    show ?thesis using a [OF p' _ s] h p' by blast
  qed
  show ?thesis using p a [OF p api sig] other by blast
qed

theorem api_key_signature_witness:
  "\<exists>params. getRequestParams (platform []) api_client ''POST'' ''/v2/accounts''
               (JObj [(''name'', JStr ''savings'')]) = Inr params
     \<and> js_prop (js_prop (JObj params) ''headers'') ''CB-ACCESS-TIMESTAMP'' = JNum 5
     \<and> js_prop (js_prop (JObj params) ''headers'') ''CB-ACCESS-SIGN'' =
         JStr ''secret/5POST/v2/accounts{}''"
proof -
  have n: "show_nat 5 = ''5''" by (simp add: show_nat.simps)
  have h1: "\<not> isOAuth api_client" by (simp add: fixture_defs)
  have h2: "hmac_sha256_hex (platform []) (priv_apiSecret api_client)
           (show_nat (date_now (platform []) div 1000) @ ''POST'' @ ''/v2/accounts''
            @ (if truthy (JObj [(''name'', JStr ''savings'')])
               then concat_text (json_stringify (platform []) (JObj [(''name'', JStr ''savings'')]))
               else [])) = Some ''secret/5POST/v2/accounts{}''"
    by (simp add: fixture_defs n)
  have h3: "int (date_now (platform []) div 1000) = 5" by (simp add: platform_def)
  from api_key_signature [OF h1 h2] obtain params where
    "getRequestParams (platform []) api_client ''POST'' ''/v2/accounts''
       (JObj [(''name'', JStr ''savings'')]) = Inr params"
    and "js_prop (js_prop (JObj params) ''headers'') ''CB-ACCESS-TIMESTAMP'' =
           JNum (int (date_now (platform []) div 1000))"
    and "js_prop (js_prop (JObj params) ''headers'') ''CB-ACCESS-SIGN'' =
           JStr ''secret/5POST/v2/accounts{}''"
    by blast
  then show ?thesis
    unfolding h3 by blast
qed

section \<open>The authentication mode\<close>

text \<open>
  C7 (amended).  A client is in exactly one mode at any time, OAuth when the stored access
  token is not \<^verbatim>\<open>null\<close> or \<^verbatim>\<open>undefined\<close> and API-key otherwise.  The constructor
  sets the mode by whether \<^verbatim>\<open>accessToken\<close> was provided, and registering an event
  function keeps it.  On a platform whose successful refresh answers always carry an access
  token, every request keeps it too, whatever its verb, parameters and \<^verbatim>\<open>refresh\<close> flag
  and whether or not it refreshes the token on the way: \<^verbatim>\<open>httpRequest\<close>, the four
  \<^verbatim>\<open>http\<close> verbs, \<^verbatim>\<open>revokeToken\<close> and the three money calls; and a refresh started on
  an OAuth client leaves it an OAuth client.
\<close>

theorem auth_mode_fixed:
  "isOAuth (constructor opts) = (\<not> nullish (opt_accessToken opts))
   \<and> isOAuth (on c eventName eventFn) = isOAuth c
   \<and> (refresh_grants_token e \<longrightarrow>
        isOAuth (snd (httpRequest e c fn params refresh)) = isOAuth c
      \<and> isOAuth (snd (httpGet e c path refresh)) = isOAuth c
      \<and> isOAuth (snd (httpPost e c path body refresh)) = isOAuth c
      \<and> isOAuth (snd (httpPut e c path body refresh)) = isOAuth c
      \<and> isOAuth (snd (httpDelete e c path refresh)) = isOAuth c
      \<and> isOAuth (snd (revokeToken e c)) = isOAuth c
      \<and> isOAuth (snd (fst (sendMoney e c h accountId target))) = isOAuth c
      \<and> isOAuth (snd (fst (transferMoney e c h accountId target))) = isOAuth c
      \<and> isOAuth (snd (fst (requestMoney e c h accountId target))) = isOAuth c
      \<and> (isOAuth c \<longrightarrow> isOAuth (snd (refreshToken e c))))"
proof -
  have a: "isOAuth (constructor opts) = (\<not> nullish (opt_accessToken opts))"
    by (simp add: constructor_def isOAuth_def)
  have b: "isOAuth (on c eventName eventFn) = isOAuth c"
    by (simp add: on_def isOAuth_def)
  have post: "isOAuth (snd (httpPost e c path' body' refresh')) = isOAuth c"
    if "refresh_grants_token e" for path' body' refresh'
    using httpRequest_keeps_mode [OF that] by (simp add: httpPost.simps split: sum.splits)
  have rest: "isOAuth (snd (httpGet e c path refresh)) = isOAuth c"
    "isOAuth (snd (httpPut e c path body refresh)) = isOAuth c"
    "isOAuth (snd (httpDelete e c path refresh)) = isOAuth c"
    if "refresh_grants_token e"
    using httpRequest_keeps_mode [OF that]
    by (simp_all add: httpGet_def httpPut_def httpDelete_def split: sum.splits)
  have money: "isOAuth (snd (fst (sendMoney e c h accountId target))) = isOAuth c"
    "isOAuth (snd (fst (transferMoney e c h accountId target))) = isOAuth c"
    "isOAuth (snd (fst (requestMoney e c h accountId target))) = isOAuth c"
    if "refresh_grants_token e"
    using post [OF that]
    by (simp_all add: sendMoney_def transferMoney_def requestMoney_def assign_in_place_def Let_def)
  show ?thesis
    using a b httpRequest_keeps_mode post rest money refreshToken_keeps_OAuth
    by (simp add: revokeToken_def)
qed

theorem auth_mode_fixed_witness:
  "refresh_grants_token token_server
   \<and> isOAuth oauth_client
   \<and> isOAuth (snd (httpRequest token_server oauth_client GET user_request True))
   \<and> isOAuth (snd (refreshToken token_server oauth_client))
   \<and> \<not> isOAuth api_client
   \<and> \<not> isOAuth (snd (httpRequest token_server api_client GET user_request True))"
proof -
  have g: "refresh_grants_token token_server"
    unfolding refresh_grants_token_def
    by (auto simp add: token_server_def token_payload_def COINBASE_API_def split: if_splits)
  have o: "isOAuth oauth_client" "\<not> isOAuth api_client"
    by (simp_all add: fixture_defs)
  show ?thesis
    using g o
      auth_mode_fixed [of _ oauth_client _ _ token_server GET user_request True]
      auth_mode_fixed [of _ api_client _ _ token_server GET user_request True]
    by simp
qed

text \<open>
  The claim as stated fails: a refresh answer that is truthy but has no
  \<^verbatim>\<open>access_token\<close> (here \<^verbatim>\<open>{token_type: 'bearer'}\<close>) is stored all the same, the
  access token becomes \<^verbatim>\<open>undefined\<close>, and the client that was built in OAuth mode is
  in API-key mode after the request.
\<close>

theorem auth_mode_changes_counterexample:
  "isOAuth oauth_client
   \<and> \<not> isOAuth (snd (httpRequest
         (platform [Response 401 (JStr ''expired''),
                    Response 200 (JObj [(''token_type'', JStr ''bearer'')]),
                    Response 200 (JObj [(''data'', JObj [(''id'', JStr ''u1'')])])])
         oauth_client GET user_request True))"
proof -
  let ?e = "platform [Response 401 (JStr ''expired''),
                      Response 200 (JObj [(''token_type'', JStr ''bearer'')]),
                      Response 200 (JObj [(''data'', JObj [(''id'', JStr ''u1'')])])]"
  let ?c1 = "oauth_client\<lparr>sent := [(GET, user_request)]\<rparr>"
  let ?c2 = "oauth_client\<lparr>priv_accessToken := JUndefined, priv_refreshToken := JUndefined,
               sent := [(GET, user_request), (POST, oauth_refresh_request)]\<rparr>"
  have o: "isOAuth oauth_client" by (simp add: fixture_defs)
  have s1: "send ?e oauth_client GET user_request =
              (Rejected (ExpiredTokenError ''expired''), ?c1)"
    by (simp add: send_def fixture_defs)
  have rp: "getRequestParams ?e oauth_client ''POST'' ''/oauth/token''
              (refresh_grant oauth_client) = Inr oauth_refresh_request"
    by (simp add: getRequestParams_OAuth o) (simp add: fixture_defs)
  have s2: "send ?e ?c1 POST oauth_refresh_request =
              (Resolved (JObj [(''token_type'', JStr ''bearer'')]),
               oauth_client\<lparr>sent := [(GET, user_request), (POST, oauth_refresh_request)]\<rparr>)"
    by (simp add: send_def fixture_defs)
  have ev: "priv_events oauth_client ''didRefreshToken'' = None" by (simp add: fixture_defs)
  have r: "refreshToken ?e ?c1 = (Resolved (JObj [(''token_type'', JStr ''bearer'')]), ?c2)"
    by (simp add: refreshToken.simps httpPost.simps rp httpRequest_no_refresh s2 ev)
  have "\<not> isOAuth (snd (send ?e ?c2 GET params))" for params
    by (simp add: snd_send isOAuth_def)
  then show ?thesis
    using o by (simp add: httpRequest.simps s1 r)
qed

section \<open>Revoking a token\<close>

text \<open>
  C9 (amended).  For every credential state: the request that \<^verbatim>\<open>revokeToken\<close> builds
  has the body \<^verbatim>\<open>{token: undefined}\<close>, whatever access token is stored, because the
  property \<^verbatim>\<open>accessToken\<close> it reads is never defined on the client; that request is
  the first one the call sends; and no request sent during the call (the revoke request, a
  refresh call after a 401, the retry) has a body whose \<^verbatim>\<open>token\<close> field is anything
  but \<^verbatim>\<open>undefined\<close>.  So the stored access token is never transmitted in the body of
  the revoke request.  In OAuth mode the request does carry it, as the bearer credential
  \<^verbatim>\<open>auth.bearer\<close> that every OAuth request carries.
\<close>

theorem revoke_body_has_no_token:
  "(getRequestParams e c ''POST'' ''/oauth/revoke'' (JObj [(''token'', JUndefined)]) = Inr vparams
      \<longrightarrow> map_of vparams ''body'' = Some (JObj [(''token'', JUndefined)])
          \<and> take 1 (drop (length (sent c)) (sent (snd (revokeToken e c)))) = [(POST, vparams)])
   \<and> (\<forall>(fn, params) \<in> set (drop (length (sent c)) (sent (snd (revokeToken e c)))).
         js_prop (js_prop (JObj params) ''body'') ''token'' = JUndefined)
   \<and> (isOAuth c \<longrightarrow>
         getRequestParams e c ''POST'' ''/oauth/revoke'' (JObj [(''token'', JUndefined)]) =
           Inr [(''url'', JStr (COINBASE_API @ ''/oauth/revoke'')),
                (''json'', JBool True),
                (''headers'', JObj
                   [(''CB-VERSION'', JStr ''2016-08-09''),
                    (''Content-Type'', JStr ''application/json''),
                    (''Accept'', JStr ''application/json''),
                    (''Accept-Language'', JStr ''en'')]),
                (''auth'', JObj [(''bearer'', priv_accessToken c)]),
                (''body'', JObj [(''token'', JUndefined)])])"
proof -
  have bodies:
    "(getRequestParams e c ''POST'' ''/oauth/revoke'' (JObj [(''token'', JUndefined)]) = Inr vparams
        \<longrightarrow> map_of vparams ''body'' = Some (JObj [(''token'', JUndefined)])
            \<and> take 1 (drop (length (sent c)) (sent (snd (revokeToken e c)))) = [(POST, vparams)])
     \<and> (\<forall>(fn, params) \<in> set (drop (length (sent c)) (sent (snd (revokeToken e c)))).
           js_prop (js_prop (JObj params) ''body'') ''token'' = JUndefined)"
  proof (cases "getRequestParams e c ''POST'' ''/oauth/revoke'' (JObj [(''token'', JUndefined)])")
    case (Inl err)
    then show ?thesis by (simp add: revokeToken_def httpPost.simps)
  next
    case (Inr p)
    have body: "map_of p ''body'' = Some (JObj [(''token'', JUndefined)])"
      using getRequestParams_body [OF Inr] by simp
    have rv: "revokeToken e c = httpRequest e c POST p True"
      using Inr by (simp add: revokeToken_def httpPost.simps)
    obtain rest where log: "sent (snd (revokeToken e c)) = sent c @ (POST, p) # rest"
      and shape: "rest = []
          \<or> (\<exists>rparams. getRequestParams e c ''POST'' ''/oauth/token'' (refresh_grant c) = Inr rparams
               \<and> isOAuth c
               \<and> (rest = [(POST, rparams)]
                  \<or> (\<exists>tok. rest = [(POST, rparams),
                        (POST, assign p [[(''auth'', JObj [(''bearer'', tok)])]])])))"
      using httpRequest_sent_shape [of e c POST p True] rv by auto
    have first: "js_prop (js_prop (JObj p) ''body'') ''token'' = JUndefined"
      using body by simp
    have retry: "js_prop (js_prop (JObj (assign p [[(''auth'', JObj s)]])) ''body'') ''token''
                   = JUndefined" for s
      using body by (simp add: assign_auth_keeps_body)
    have grant: "js_prop (js_prop (JObj rparams) ''body'') ''token'' = JUndefined"
      if "getRequestParams e c ''POST'' ''/oauth/token'' (refresh_grant c) = Inr rparams"
      for rparams
      using getRequestParams_body [OF that] by (simp add: refresh_grant_def)
    have all: "\<forall>(fn, params) \<in> set ((POST, p) # rest).
                 js_prop (js_prop (JObj params) ''body'') ''token'' = JUndefined"
      using shape first retry grant by auto
    show ?thesis
      using Inr body log all by auto
  qed
  have bearer: "getRequestParams e c ''POST'' ''/oauth/revoke'' (JObj [(''token'', JUndefined)]) =
           Inr [(''url'', JStr (COINBASE_API @ ''/oauth/revoke'')),
                (''json'', JBool True),
                (''headers'', JObj
                   [(''CB-VERSION'', JStr ''2016-08-09''),
                    (''Content-Type'', JStr ''application/json''),
                    (''Accept'', JStr ''application/json''),
                    (''Accept-Language'', JStr ''en'')]),
                (''auth'', JObj [(''bearer'', priv_accessToken c)]),
                (''body'', JObj [(''token'', JUndefined)])]"
    if "isOAuth c"
    using that by (simp add: getRequestParams_OAuth)
  show ?thesis using bodies bearer by blast
qed

theorem revoke_body_has_no_token_witness:
  "map_of oauth_revoke_request ''body'' = Some (JObj [(''token'', JUndefined)])
   \<and> take 1 (sent (snd (revokeToken (platform [Response 200 (JObj [])]) oauth_client))) =
       [(POST, oauth_revoke_request)]
   \<and> getRequestParams (platform [Response 200 (JObj [])]) oauth_client ''POST''
       ''/oauth/revoke'' (JObj [(''token'', JUndefined)]) = Inr oauth_revoke_request"
proof -
  let ?e = "platform [Response 200 (JObj [])]"
  have o: "isOAuth oauth_client" by (simp add: fixture_defs)
  have vp: "getRequestParams ?e oauth_client ''POST'' ''/oauth/revoke''
              (JObj [(''token'', JUndefined)]) = Inr oauth_revoke_request"
    by (simp add: getRequestParams_OAuth o) (simp add: fixture_defs)
  have s: "sent oauth_client = []"
    by (simp add: fixture_defs)
  show ?thesis
    using revoke_body_has_no_token [of ?e oauth_client oauth_revoke_request] vp s o by simp
qed

text \<open>
  The claim as stated fails on its conclusion: the revoke request of an OAuth client does
  transmit the stored access token, in its \<^verbatim>\<open>auth.bearer\<close> field.
\<close>

theorem revoke_sends_bearer_counterexample:
  "isOAuth oauth_client
   \<and> priv_accessToken oauth_client = JStr ''old''
   \<and> sent (snd (revokeToken (platform [Response 200 (JObj [])]) oauth_client)) =
       [(POST, oauth_revoke_request)]
   \<and> js_prop (js_prop (JObj oauth_revoke_request) ''auth'') ''bearer'' = JStr ''old''
   \<and> js_prop (js_prop (JObj oauth_revoke_request) ''body'') ''token'' = JUndefined"
proof -
  let ?e = "platform [Response 200 (JObj [])]"
  have o: "isOAuth oauth_client" by (simp add: fixture_defs)
  have vp: "getRequestParams ?e oauth_client ''POST'' ''/oauth/revoke''
              (JObj [(''token'', JUndefined)]) = Inr oauth_revoke_request"
    by (simp add: getRequestParams_OAuth o) (simp add: fixture_defs)
  have s1: "send ?e oauth_client POST oauth_revoke_request =
              (Resolved (JObj []), oauth_client\<lparr>sent := [(POST, oauth_revoke_request)]\<rparr>)"
    by (simp add: send_def fixture_defs)
  have rv: "revokeToken ?e oauth_client =
              (Resolved (JObj []), oauth_client\<lparr>sent := [(POST, oauth_revoke_request)]\<rparr>)"
    by (simp add: revokeToken_def httpPost.simps vp httpRequest.simps s1)
  have t: "priv_accessToken oauth_client = JStr ''old''" by (simp add: fixture_defs)
  show ?thesis
    using o t by (simp add: rv) (simp add: oauth_revoke_request_def)
qed

section \<open>The caller's params object\<close>

text \<open>
  C10.  \<^verbatim>\<open>sendMoney\<close>, \<^verbatim>\<open>transferMoney\<close> and \<^verbatim>\<open>requestMoney\<close> write into the
  object the caller passed: after the call, whatever the request came to, the object at the
  caller's address has its \<^verbatim>\<open>type\<close> field set to \<^verbatim>\<open>send\<close>, \<^verbatim>\<open>transfer\<close> or
  \<^verbatim>\<open>request\<close>, replacing a \<^verbatim>\<open>type\<close> the caller may have supplied; its other fields
  and the other objects of the heap are as before.
\<close>

theorem money_calls_mutate_params:
  "map_of (snd (sendMoney e c h accountId target) target) ''type'' = Some (JStr ''send'')
   \<and> map_of (snd (transferMoney e c h accountId target) target) ''type'' = Some (JStr ''transfer'')
   \<and> map_of (snd (requestMoney e c h accountId target) target) ''type'' = Some (JStr ''request'')
   \<and> (\<forall>key. key \<noteq> ''type'' \<longrightarrow>
         map_of (snd (sendMoney e c h accountId target) target) key = map_of (h target) key
       \<and> map_of (snd (transferMoney e c h accountId target) target) key = map_of (h target) key
       \<and> map_of (snd (requestMoney e c h accountId target) target) key = map_of (h target) key)
   \<and> (\<forall>other. other \<noteq> target \<longrightarrow>
         snd (sendMoney e c h accountId target) other = h other
       \<and> snd (transferMoney e c h accountId target) other = h other
       \<and> snd (requestMoney e c h accountId target) other = h other)"
  by (simp add: sendMoney_def transferMoney_def requestMoney_def assign_in_place_def Let_def
      assign_one_string update_conv')

theorem money_calls_mutate_params_witness:
  "snd (sendMoney (platform []) api_client
          (\<lambda>a. [(''to'', JStr ''bob''), (''amount'', JStr ''1''), (''type'', JStr ''gift'')])
          ''acct'' 7) 7
     = [(''to'', JStr ''bob''), (''amount'', JStr ''1''), (''type'', JStr ''send'')]
   \<and> map_of (snd (sendMoney (platform []) api_client
          (\<lambda>a. [(''to'', JStr ''bob''), (''amount'', JStr ''1''), (''type'', JStr ''gift'')])
          ''acct'' 7) 7) ''to'' = Some (JStr ''bob'')
   \<and> snd (sendMoney (platform []) api_client
          (\<lambda>a. [(''to'', JStr ''bob''), (''amount'', JStr ''1''), (''type'', JStr ''gift'')])
          ''acct'' 7) 8
     = [(''to'', JStr ''bob''), (''amount'', JStr ''1''), (''type'', JStr ''gift'')]"
proof -
  let ?h = "\<lambda>a::nat. [(''to'', JStr ''bob''), (''amount'', JStr ''1''), (''type'', JStr ''gift'')]"
  have a: "snd (sendMoney (platform []) api_client ?h ''acct'' 7) 7
     = [(''to'', JStr ''bob''), (''amount'', JStr ''1''), (''type'', JStr ''send'')]"
    by (simp add: sendMoney_def assign_in_place_def assign_def Let_def)
  have b: "''to'' \<noteq> ''type''" "(8::nat) \<noteq> 7" by simp_all
  show ?thesis
    using a b money_calls_mutate_params [of "platform []" api_client ?h "''acct''" 7]
    by simp
qed

end
